theory Spec2Isabelle
  imports Complex_Main "HOL-Library.Word"
begin

section \<open>Data model of the printer managers\<close>

text \<open>
  The repository holds several printer managers that share one shape: a JavaScript
  \<^verbatim>\<open>Map\<close> from printer id to a mutable printer object (\<^verbatim>\<open>connectedPrinters\<close>), a
  snapshot of it in \<^verbatim>\<open>localStorage\<close>, and operations that mutate both.

  Every \<^verbatim>\<open>Map.set\<close> of the source uses the id stored in the object as the key and no
  code assigns to \<^verbatim>\<open>id\<close> afterwards, so the map is modelled as the list of its values
  in insertion order, looked up by the \<open>pid\<close> field. Assigning to a field of the
  object returned by \<^verbatim>\<open>get\<close> or by \<^verbatim>\<open>Array.from(values()).find(...)\<close> is an update of
  the first list element that satisfies the search predicate.

  Statuses, timestamps and message types are the strings of the source.
\<close>

type_synonym byte = "8 word"

text \<open>A Web Bluetooth device object as a manager observes it: \<^verbatim>\<open>id\<close>, \<^verbatim>\<open>name\<close> and
  the flag \<^verbatim>\<open>gatt.connected\<close> at the time of observation.\<close>

record bt_device =
  dev_id :: string
  dev_name :: string
  gatt_connected :: bool

record printer_base =
  pid :: string
  name :: string
  status :: string
  lastUsed :: string

text \<open>A printer object of a Bluetooth manager. \<open>None\<close> in \<open>device\<close> and \<open>server\<close> is
  JavaScript's \<^verbatim>\<open>null\<close>. A record loaded from storage has no \<^verbatim>\<open>connectionAttempts\<close> and
  no \<^verbatim>\<open>shared\<close> property; the source reads them as \<^verbatim>\<open>(x || 0)\<close> and as a truth value,
  so they load as \<open>0\<close> and \<open>False\<close>.\<close>

record bt_printer = printer_base +
  deviceId :: string
  device :: "bt_device option"
  server :: "bt_device option"
  connectedAt :: string
  connectionAttempts :: nat
  shared :: bool

text \<open>An entry of a persisted snapshot. The Bluetooth managers write no status; a
  snapshot read back may still carry one, so the field is optional.\<close>

record persisted_base =
  s_id :: string
  s_name :: string
  s_lastUsed :: string
  s_status :: "string option"

record bt_persisted = persisted_base +
  s_deviceId :: string
  s_connectedAt :: string

text \<open>The metadata subset sent to sibling tabs by \<^verbatim>\<open>broadcastConnectionState\<close>.\<close>

record bt_meta =
  m_id :: string
  m_name :: string
  m_deviceId :: string
  m_status :: string
  m_connectedAt :: string
  m_lastUsed :: string

text \<open>What a manager does to the outside world, in the order it does it.\<close>

datatype effect =
    Persist "bt_persisted list"
  | Broadcast string bt_meta
  | Notify string string
  | AddListener string string
  | GetDevices
  | RequestDevice
  | GattConnect string
  | GattDisconnect string
  | SetTimeout nat
  | WriteValue nat "byte list"
  | WriteValueWithoutResponse nat "byte list"
  | Delay nat

text \<open>State of a Bluetooth manager. \<open>storage\<close> is the parsed value of the manager's
  \<^verbatim>\<open>localStorage\<close> item (\<open>None\<close>: no item, or one that does not parse).
  \<^verbatim>\<open>JSON.stringify\<close> and \<^verbatim>\<open>setItem\<close> are taken not to throw.\<close>

record bt_state =
  connectedPrinters :: "bt_printer list"
  storage :: "bt_persisted list option"
  supportsGetDevices :: bool
  hasBroadcastChannel :: bool
  reconnectAttempts :: nat
  maxReconnectAttempts :: nat
  reconnectDelay :: nat
  connectionStatus :: string
  connectionTimes :: "int list"
  printTimes :: "int list"
  log :: "effect list"

subsection \<open>Map operations on the list of values\<close>

fun upd_first :: "('a \<Rightarrow> bool) \<Rightarrow> ('a \<Rightarrow> 'a) \<Rightarrow> 'a list \<Rightarrow> 'a list" where
  "upd_first P f [] = []"
| "upd_first P f (x # xs) = (if P x then f x # xs else x # upd_first P f xs)"

definition map_get :: "string \<Rightarrow> ('a printer_base_scheme) list \<Rightarrow> 'a printer_base_scheme option" where
  "map_get k ps = find (\<lambda>p. pid p = k) ps"

definition map_set :: "'a printer_base_scheme \<Rightarrow> ('a printer_base_scheme) list \<Rightarrow> ('a printer_base_scheme) list" where
  "map_set p ps =
     (if \<exists>q \<in> set ps. pid q = pid p then upd_first (\<lambda>q. pid q = pid p) (\<lambda>_. p) ps
      else ps @ [p])"

definition map_delete :: "string \<Rightarrow> ('a printer_base_scheme) list \<Rightarrow> ('a printer_base_scheme) list" where
  "map_delete k ps = filter (\<lambda>p. pid p \<noteq> k) ps"

definition emit :: "effect \<Rightarrow> bt_state \<Rightarrow> bt_state" where
  "emit e st = st\<lparr>log := log st @ [e]\<rparr>"

section \<open>Enhanced Bluetooth manager\<close>

definition to_persisted :: "bt_printer \<Rightarrow> bt_persisted" where
  "to_persisted p =
     \<lparr>s_id = pid p, s_name = name p, s_lastUsed = lastUsed p, s_status = None,
      s_deviceId = deviceId p, s_connectedAt = connectedAt p\<rparr>"

definition savePersistedConnections :: "bt_state \<Rightarrow> bt_state" where
  "savePersistedConnections st =
     (let connections = map to_persisted (connectedPrinters st)
      in emit (Persist connections) (st\<lparr>storage := Some connections\<rparr>))"

definition to_meta :: "bt_printer \<Rightarrow> bt_meta" where
  "to_meta p =
     \<lparr>m_id = pid p, m_name = name p, m_deviceId = deviceId p, m_status = status p,
      m_connectedAt = connectedAt p, m_lastUsed = lastUsed p\<rparr>"

definition broadcastConnectionState :: "string \<Rightarrow> bt_printer \<Rightarrow> bt_state \<Rightarrow> bt_state" where
  "broadcastConnectionState type p st =
     (if hasBroadcastChannel st then emit (Broadcast type (to_meta p)) st else st)"

definition notifyConnectionStatus :: "string \<Rightarrow> bt_printer \<Rightarrow> bt_state \<Rightarrow> bt_state" where
  "notifyConnectionStatus type p st = emit (Notify type (pid p)) st"

definition setupDeviceEventListeners :: "bt_device \<Rightarrow> string \<Rightarrow> bt_state \<Rightarrow> bt_state" where
  "setupDeviceEventListeners d printerId st = emit (AddListener (dev_id d) printerId) st"

text \<open>\<^verbatim>\<open>addPrinter(device, server)\<close>: a record of the device is reused only while its
  status is connected; otherwise a new record is stored under a new id. The id built
  from the clock and a random number, and the timestamp, are parameters.\<close>

definition addPrinter :: "string \<Rightarrow> string \<Rightarrow> bt_device \<Rightarrow> bt_device \<Rightarrow> bt_state \<Rightarrow> string \<times> bt_state" where
  "addPrinter newId t d srv st =
     (let deviceName = (if dev_name d = [] then ''Bluetooth Printer'' else dev_name d) in
      case find (\<lambda>p. deviceId p = dev_id d \<and> status p = ''connected'') (connectedPrinters st) of
        Some existingPrinter \<Rightarrow>
          (pid existingPrinter,
           savePersistedConnections
             (setupDeviceEventListeners d (pid existingPrinter)
                (st\<lparr>connectedPrinters :=
                     upd_first (\<lambda>p. deviceId p = dev_id d \<and> status p = ''connected'')
                       (\<lambda>p. p\<lparr>device := Some d, server := Some srv, status := ''connected'',
                               lastUsed := t\<rparr>)
                       (connectedPrinters st)\<rparr>)))
      | None \<Rightarrow>
          (let printerData =
                 \<lparr>pid = newId, name = deviceName, status = ''connected'', lastUsed = t,
                  deviceId = dev_id d, device = Some d, server = Some srv, connectedAt = t,
                  connectionAttempts = 0, shared = True\<rparr>;
               st1 = savePersistedConnections
                       (st\<lparr>connectedPrinters := map_set printerData (connectedPrinters st)\<rparr>);
               st2 = setupDeviceEventListeners d newId st1;
               st3 = broadcastConnectionState ''connected'' printerData st2
           in (newId, st3)))"

text \<open>\<^verbatim>\<open>handleBroadcastMessage(data)\<close>: the record is searched by \<^verbatim>\<open>deviceId\<close>, not by
  id.\<close>

definition handleBroadcastMessage :: "string \<Rightarrow> bt_meta \<Rightarrow> bt_state \<Rightarrow> bt_state" where
  "handleBroadcastMessage type m st =
     (if type = ''connected'' \<or> type = ''reconnected'' then
        (case find (\<lambda>p. deviceId p = m_deviceId m) (connectedPrinters st) of
           None \<Rightarrow> st
         | Some existingPrinter \<Rightarrow>
             if status existingPrinter = ''disconnected'' then
               savePersistedConnections
                 (st\<lparr>connectedPrinters :=
                      upd_first (\<lambda>p. deviceId p = m_deviceId m)
                        (\<lambda>p. p\<lparr>name := m_name m, connectedAt := m_connectedAt m,
                                lastUsed := m_lastUsed m\<rparr>)
                        (connectedPrinters st)\<rparr>)
             else st)
      else if type = ''disconnected'' then
        (case find (\<lambda>p. deviceId p = m_deviceId m) (connectedPrinters st) of
           None \<Rightarrow> st
         | Some existingPrinter \<Rightarrow>
             savePersistedConnections
               (st\<lparr>connectedPrinters :=
                    upd_first (\<lambda>p. deviceId p = m_deviceId m)
                      (\<lambda>p. p\<lparr>status := ''disconnected'', device := None, server := None\<rparr>)
                      (connectedPrinters st)\<rparr>))
      else st)"

text \<open>\<^verbatim>\<open>attemptReconnectFromPairedDevices()\<close> is asynchronous. A caller that does not
  await it runs it up to its first \<^verbatim>\<open>await\<close>: the support check and the call of
  \<^verbatim>\<open>navigator.bluetooth.getDevices()\<close>. What follows the \<^verbatim>\<open>await\<close> runs after the caller
  has returned.\<close>

definition attemptReconnectFromPairedDevices_start :: "bt_state \<Rightarrow> bt_state" where
  "attemptReconnectFromPairedDevices_start st =
     (if \<not> supportsGetDevices st then st else emit GetDevices st)"

definition disconnected_upd :: "bt_printer \<Rightarrow> bt_printer" where
  "disconnected_upd p =
     p\<lparr>status := ''disconnected'', device := None, server := None,
       connectionAttempts := connectionAttempts p + 1\<rparr>"

definition handleDisconnection :: "string \<Rightarrow> bt_state \<Rightarrow> bt_state" where
  "handleDisconnection printerId st =
     (case map_get printerId (connectedPrinters st) of
        None \<Rightarrow> st
      | Some p0 \<Rightarrow>
          (let printer = disconnected_upd p0;
               st1 = st\<lparr>connectedPrinters :=
                          upd_first (\<lambda>p. pid p = printerId) disconnected_upd (connectedPrinters st)\<rparr>;
               st2 = broadcastConnectionState ''disconnected'' printer st1;
               st3 = (if supportsGetDevices st2 \<and> shared printer
                      then attemptReconnectFromPairedDevices_start st2 else st2);
               st4 = notifyConnectionStatus ''disconnected'' printer st3
           in savePersistedConnections st4))"



text \<open>\<^verbatim>\<open>disconnectPrinter(printerId)\<close>.\<close>

definition disconnectPrinter :: "string \<Rightarrow> bt_state \<Rightarrow> bt_state" where
  "disconnectPrinter printerId st =
     (case map_get printerId (connectedPrinters st) of
        None \<Rightarrow> st
      | Some printer \<Rightarrow>
          (case device printer of
             None \<Rightarrow> st
           | Some d \<Rightarrow>
               (let st1 = (if gatt_connected d then emit (GattDisconnect (dev_id d)) st else st)
                in savePersistedConnections
                     (st1\<lparr>connectedPrinters := map_delete printerId (connectedPrinters st1)\<rparr>))))"

text \<open>\<^verbatim>\<open>loadPersistedConnections()\<close>: every entry is stored under its id with
  \<^verbatim>\<open>device: null, server: null, status: 'disconnected'\<close> written over what was spread
  from the entry; then the silent reconnection is started.\<close>

definition bt_loaded :: "bt_persisted \<Rightarrow> bt_printer" where
  "bt_loaded c =
     \<lparr>pid = s_id c, name = s_name c, status = ''disconnected'', lastUsed = s_lastUsed c,
      deviceId = s_deviceId c, device = None, server = None, connectedAt = s_connectedAt c,
      connectionAttempts = 0, shared = False\<rparr>"

definition loadPersistedConnections :: "bt_state \<Rightarrow> bt_state" where
  "loadPersistedConnections st =
     (case storage st of
        None \<Rightarrow> st
      | Some connections \<Rightarrow>
          attemptReconnectFromPairedDevices_start
            (st\<lparr>connectedPrinters :=
                 foldl (\<lambda>ps c. map_set (bt_loaded c) ps) (connectedPrinters st) connections\<rparr>))"

subsection \<open>The environment of a Bluetooth manager\<close>

text \<open>What the browser and the devices answer. \<open>getDevices_result\<close> is the list
  \<^verbatim>\<open>navigator.bluetooth.getDevices()\<close> resolves to (\<open>None\<close>: it rejects).
  \<open>requestDevice_result\<close> is the outcome of the device picker. \<open>connect_ok\<close> tells
  whether \<^verbatim>\<open>gatt.connect()\<close> resolves before the timeout. \<open>known_channel\<close> and
  \<open>scan_channel\<close> tell which of the three known service/characteristic pairs a
  printer offers and whether the scan of all services finds a writable characteristic.
  \<open>write_ok\<close> tells whether the write at a byte offset resolves.\<close>

datatype request_outcome =
    Chosen bt_device
  | SecurityError
  | NotFoundError string
  | NotSupportedError
  | OtherError string

record bt_env =
  getDevices_result :: "bt_device list option"
  requestDevice_result :: request_outcome
  connect_ok :: "string \<Rightarrow> bool"
  known_channel :: "string \<Rightarrow> nat \<Rightarrow> bool"
  scan_channel :: "string \<Rightarrow> bool"
  write_ok :: "string \<Rightarrow> nat \<Rightarrow> bool"
  now :: string
  elapsed :: int

text \<open>\<^verbatim>\<open>String.prototype.includes\<close>.\<close>

fun str_includes :: "string \<Rightarrow> string \<Rightarrow> bool" where
  "str_includes [] sub = (sub = [])"
| "str_includes (c # cs) sub = (take (length sub) (c # cs) = sub \<or> str_includes cs sub)"

text \<open>\<^verbatim>\<open>requestDeviceWithTimeout()\<close>: \<open>Inr None\<close> is the \<^verbatim>\<open>null\<close> returned when the user
  cancels the picker, \<open>Inl\<close> the message of the error thrown.\<close>

definition requestDeviceWithTimeout :: "bt_env \<Rightarrow> string + bt_device option" where
  "requestDeviceWithTimeout env =
     (case requestDevice_result env of
        Chosen d \<Rightarrow> Inr (Some d)
      | SecurityError \<Rightarrow>
          Inl ''Bluetooth access denied. Please allow Bluetooth permissions in your browser settings.''
      | NotFoundError msg \<Rightarrow>
          if msg \<noteq> [] \<and> str_includes msg ''cancelled'' then Inr None
          else Inl ''No Bluetooth devices found. Make sure your printer is in pairing mode and nearby.''
      | NotSupportedError \<Rightarrow>
          Inl ''Bluetooth not supported on this device. Please use a compatible browser.''
      | OtherError msg \<Rightarrow> Inl (''Bluetooth error: '' @ msg))"

definition matches :: "bt_printer \<Rightarrow> bt_device \<Rightarrow> bool" where
  "matches printer d = (dev_id d = deviceId printer \<or> dev_name d = name printer)"

text \<open>The assignments both success paths of \<^verbatim>\<open>attemptReconnection\<close> make.\<close>

definition reconnected_upd :: "bt_device \<Rightarrow> string \<Rightarrow> bt_printer \<Rightarrow> bt_printer" where
  "reconnected_upd d t p =
     p\<lparr>device := Some d, server := Some d, status := ''connected'', lastUsed := t,
       connectionAttempts := 0\<rparr>"

text \<open>\<^verbatim>\<open>attemptReconnection(printerId, showPicker = false)\<close>, run from its call to its
  return with the answers of the environment; handlers that might run while it is
  suspended are not interleaved. The first part is the silent look-up in the paired
  devices: \<open>Inl\<close> is the early return for a device that is already connected, \<open>Inr\<close>
  the device found, if any.\<close>

definition silent_acquire ::
  "bt_env \<Rightarrow> string \<Rightarrow> bool \<Rightarrow> bt_printer \<Rightarrow> bt_state \<Rightarrow> (bt_state + bt_device option) \<times> bt_state" where
  "silent_acquire env printerId showPicker printer st =
     (if supportsGetDevices st \<and> \<not> showPicker then
        (let st1 = emit GetDevices st in
         case getDevices_result env of
           None \<Rightarrow> (Inr None, st1)
         | Some pairedDevices \<Rightarrow>
             (case find (matches printer) pairedDevices of
                None \<Rightarrow> (Inr None, st1)
              | Some d \<Rightarrow>
                  if gatt_connected d then
                    (let st2 = st1\<lparr>connectedPrinters :=
                                 upd_first (\<lambda>p. pid p = printerId) (reconnected_upd d (now env))
                                   (connectedPrinters st1)\<rparr>;
                         st3 = setupDeviceEventListeners d printerId st2;
                         st4 = broadcastConnectionState ''reconnected''
                                 (reconnected_upd d (now env) printer) st3
                     in (Inl (savePersistedConnections st4), st1))
                  else (Inr (Some d), st1)))
      else (Inr None, st))"

definition connect_and_record ::
  "bt_env \<Rightarrow> string \<Rightarrow> bt_printer \<Rightarrow> bt_device option \<Rightarrow> bt_state \<Rightarrow> bool \<times> bt_state" where
  "connect_and_record env printerId printer dev st =
     (case dev of
        None \<Rightarrow> (False, st)
      | Some d \<Rightarrow>
          if \<not> matches printer d then (False, st)
          else
            (let st1 = (if gatt_connected d then st else emit (GattConnect (dev_id d)) st) in
             if \<not> gatt_connected d \<and> \<not> connect_ok env (dev_id d) then
               (False, notifyConnectionStatus ''failed'' printer st1)
             else
               (let d' = d\<lparr>gatt_connected := True\<rparr>;
                    st2 = st1\<lparr>connectionTimes := connectionTimes st1 @ [elapsed env],
                              connectedPrinters :=
                                upd_first (\<lambda>p. pid p = printerId) (reconnected_upd d' (now env))
                                  (connectedPrinters st1)\<rparr>;
                    printer' = reconnected_upd d' (now env) printer;
                    st3 = setupDeviceEventListeners d' printerId st2;
                    st4 = broadcastConnectionState ''reconnected'' printer' st3;
                    st5 = notifyConnectionStatus ''reconnected'' printer' st4
                in (True, savePersistedConnections st5))))"

definition attemptReconnection :: "bt_env \<Rightarrow> string \<Rightarrow> bool \<Rightarrow> bt_state \<Rightarrow> bool \<times> bt_state" where
  "attemptReconnection env printerId showPicker st =
     (case map_get printerId (connectedPrinters st) of
        None \<Rightarrow> (False, st)
      | Some printer \<Rightarrow>
          (case silent_acquire env printerId showPicker printer st of
             (Inl done, _) \<Rightarrow> (True, done)
           | (Inr dev, st1) \<Rightarrow>
               if dev = None \<or> showPicker then
                 (let st2 = emit RequestDevice st1 in
                  case requestDeviceWithTimeout env of
                    Inl msg \<Rightarrow> (False, notifyConnectionStatus ''failed'' printer st2)
                  | Inr dev' \<Rightarrow> connect_and_record env printerId printer dev' st2)
               else connect_and_record env printerId printer dev st1))"

subsection \<open>Print pipeline\<close>

text \<open>The constructor sets \<^verbatim>\<open>maxChunkSize = 244\<close> and \<^verbatim>\<open>chunkDelay = 5\<close>; nothing
  assigns to them afterwards.\<close>

definition maxChunkSize :: nat where
  "maxChunkSize = 244"

definition chunkDelay :: nat where
  "chunkDelay = 5"

text \<open>The chunk loop of \<^verbatim>\<open>sendPrintData\<close>, on the encoded bytes:
  \<^verbatim>\<open>for (let i = 0; i < data.length; i += C) { chunk = data.slice(i, i + C);
  await writeValue(chunk); if (i + C < data.length) await delay }\<close>.
  \<open>wr i\<close> tells whether the write at offset \<open>i\<close> resolves; a write that rejects ends
  the loop with the exception (\<open>False\<close>). With \<open>C = 0\<close> the loop never advances, so
  the function is partial.\<close>

partial_function (option) sendChunks ::
  "nat \<Rightarrow> nat \<Rightarrow> (nat \<Rightarrow> bool) \<Rightarrow> byte list \<Rightarrow> nat \<Rightarrow> effect list \<Rightarrow> (bool \<times> effect list) option" where
  "sendChunks C dly wr data i lg =
     (if i < length data then
        (if wr i then
           sendChunks C dly wr data (i + C)
             (lg @ WriteValue i (take C (drop i data)) #
                (if i + C < length data then [Delay dly] else []))
         else Some (False, lg @ [WriteValue i (take C (drop i data))]))
      else Some (True, lg))"

text \<open>Resolution of the writable characteristic: the three known pairs in order, then
  the scan.\<close>

definition find_characteristic :: "bt_env \<Rightarrow> string \<Rightarrow> bool" where
  "find_characteristic env printerId =
     (if known_channel env printerId 0 \<or> known_channel env printerId 1 \<or> known_channel env printerId 2
      then True else scan_channel env printerId)"

text \<open>\<^verbatim>\<open>sendPrintData(printer, content)\<close> on the bytes \<^verbatim>\<open>TextEncoder\<close> gives for the
  content. Reading \<^verbatim>\<open>printer.device.gatt\<close> or calling a method of \<^verbatim>\<open>printer.server\<close> when
  the field is \<^verbatim>\<open>null\<close> throws a \<^verbatim>\<open>TypeError\<close>. \<open>Inl\<close> carries the message of the
  error thrown.\<close>

definition sendPrintData ::
  "bt_env \<Rightarrow> bt_printer \<Rightarrow> byte list \<Rightarrow> effect list \<Rightarrow> ((string + bool) \<times> effect list) option" where
  "sendPrintData env printer data lg =
     (case device printer of
        None \<Rightarrow> Some (Inl ''TypeError'', lg)
      | Some d \<Rightarrow>
          if \<not> gatt_connected d then Some (Inl ''Device not connected'', lg)
          else
            (case server printer of
               None \<Rightarrow> Some (Inl ''TypeError'', lg)
             | Some s \<Rightarrow>
                 if \<not> find_characteristic env (pid printer)
                 then Some (Inl ''No writable characteristic found'', lg)
                 else
                   (case sendChunks maxChunkSize chunkDelay (write_ok env (pid printer)) data 0 lg of
                      None \<Rightarrow> None
                    | Some (ok, lg') \<Rightarrow>
                        Some (if ok then Inr True else Inl ''GATT operation failed'', lg'))))"

definition printToPrinter ::
  "bt_env \<Rightarrow> string \<Rightarrow> byte list \<Rightarrow> bt_state \<Rightarrow> ((string + bool) \<times> bt_state) option" where
  "printToPrinter env printerId data st =
     (case map_get printerId (connectedPrinters st) of
        None \<Rightarrow> Some (Inl ''Printer not connected'', st)
      | Some printer \<Rightarrow>
          if status printer \<noteq> ''connected'' then Some (Inl ''Printer not connected'', st)
          else
            (case sendPrintData env printer data (log st) of
               None \<Rightarrow> None
             | Some (Inl msg, lg) \<Rightarrow> Some (Inl msg, st\<lparr>log := lg\<rparr>)
             | Some (Inr success, lg) \<Rightarrow>
                 (let st1 = st\<lparr>log := lg, printTimes := printTimes st @ [elapsed env]\<rparr> in
                  Some (Inr success,
                    if success then
                      savePersistedConnections
                        (st1\<lparr>connectedPrinters :=
                              upd_first (\<lambda>p. pid p = printerId) (\<lambda>p. p\<lparr>lastUsed := now env\<rparr>)
                                (connectedPrinters st1)\<rparr>)
                    else st1))))"

definition getConnectedPrinters :: "bt_state \<Rightarrow> bt_printer list" where
  "getConnectedPrinters st =
     filter (\<lambda>p. status p = ''connected'' \<and> device p \<noteq> None \<and> server p \<noteq> None)
       (connectedPrinters st)"

record print_result =
  r_printerId :: string
  r_success :: bool
  r_error :: "string option"

text \<open>\<^verbatim>\<open>printToAllPrinters(content)\<close>. The per-printer promises are run one after the
  other in the order of the connected list, which is the order of the results of
  \<^verbatim>\<open>Promise.all\<close>.\<close>

definition to_result :: "string \<Rightarrow> string + bool \<Rightarrow> print_result" where
  "to_result i r =
     (case r of
        Inr ok \<Rightarrow> \<lparr>r_printerId = i, r_success = ok, r_error = None\<rparr>
      | Inl msg \<Rightarrow> \<lparr>r_printerId = i, r_success = False, r_error = Some msg\<rparr>)"

fun print_each ::
  "bt_env \<Rightarrow> bt_printer list \<Rightarrow> byte list \<Rightarrow> bt_state \<Rightarrow> (print_result list \<times> bt_state) option" where
  "print_each env [] data st = Some ([], st)"
| "print_each env (p # ps) data st =
     (case printToPrinter env (pid p) data st of
        None \<Rightarrow> None
      | Some (r, st1) \<Rightarrow>
          (case print_each env ps data st1 of
             None \<Rightarrow> None
           | Some (rs, st2) \<Rightarrow>
               Some (to_result (pid p) r # rs, st2)))"

definition printToAllPrinters ::
  "bt_env \<Rightarrow> byte list \<Rightarrow> bt_state \<Rightarrow> ((string + print_result list) \<times> bt_state) option" where
  "printToAllPrinters env data st =
     (let connected = getConnectedPrinters st in
      if length connected = 0 then Some (Inl ''No printers connected'', st)
      else
        (case print_each env connected data st of
           None \<Rightarrow> None
         | Some (rs, st') \<Rightarrow> Some (Inr rs, st')))"

subsection \<open>Metrics\<close>

text \<open>Durations are differences of \<^verbatim>\<open>Date.now()\<close> values, integers. The quotient is
  taken in the rationals; \<^verbatim>\<open>Math.round\<close> rounds to the nearest integer, halves
  upwards.\<close>

definition average :: "int list \<Rightarrow> rat" where
  "average xs = (if length xs > 0 then of_int (sum_list xs) / of_nat (length xs) else 0)"

definition js_round :: "rat \<Rightarrow> int" where
  "js_round x = \<lfloor>x + 1 / 2\<rfloor>"

record metrics =
  avgConnectionTime :: int
  avgPrintTime :: int
  totalConnections :: nat
  totalPrints :: nat

definition getMetrics :: "bt_state \<Rightarrow> metrics" where
  "getMetrics st =
     \<lparr>avgConnectionTime = js_round (average (connectionTimes st)),
      avgPrintTime = js_round (average (printTimes st)),
      totalConnections = length (connectionTimes st),
      totalPrints = length (printTimes st)\<rparr>"

section \<open>Global Bluetooth manager\<close>

text \<open>\<^verbatim>\<open>attemptReconnection(printerId)\<close> of the global manager has no \<^verbatim>\<open>showPicker\<close>
  parameter and calls \<^verbatim>\<open>navigator.bluetooth.requestDevice\<close> itself: every rejection of
  the picker, a cancellation too, reaches the outer \<^verbatim>\<open>catch\<close>. Where \<^verbatim>\<open>getDevices\<close> is
  not a function the call throws inside the inner \<^verbatim>\<open>try\<close>.\<close>

definition glob_connect ::
  "bt_env \<Rightarrow> string \<Rightarrow> bt_printer \<Rightarrow> bt_device \<Rightarrow> bt_state \<Rightarrow> bt_state" where
  "glob_connect env printerId printer d st =
     (if \<not> matches printer d then st
      else
        (let st1 = emit (GattConnect (dev_id d)) st in
         if \<not> connect_ok env (dev_id d) then st1
         else
           (let d' = d\<lparr>gatt_connected := True\<rparr>;
                upd = (\<lambda>p. p\<lparr>device := Some d', server := Some d', status := ''connected'',
                              lastUsed := now env\<rparr>);
                st2 = st1\<lparr>connectedPrinters :=
                           upd_first (\<lambda>p. pid p = printerId) upd (connectedPrinters st1)\<rparr>;
                st3 = setupDeviceEventListeners d' printerId st2;
                st4 = notifyConnectionStatus ''reconnected'' (upd printer) st3
            in savePersistedConnections st4)))"

definition glob_attemptReconnection :: "bt_env \<Rightarrow> string \<Rightarrow> bt_state \<Rightarrow> bt_state" where
  "glob_attemptReconnection env printerId st =
     (case map_get printerId (connectedPrinters st) of
        None \<Rightarrow> st
      | Some printer \<Rightarrow>
          (let st1 = (if supportsGetDevices st then emit GetDevices st else st);
               dev = (if supportsGetDevices st then
                        (case getDevices_result env of
                           None \<Rightarrow> None
                         | Some pairedDevices \<Rightarrow> find (matches printer) pairedDevices)
                      else None)
           in case dev of
                Some d \<Rightarrow> glob_connect env printerId printer d st1
              | None \<Rightarrow>
                  (let st2 = emit RequestDevice st1 in
                   case requestDevice_result env of
                     Chosen d \<Rightarrow> glob_connect env printerId printer d st2
                   | _ \<Rightarrow> st2)))"



section \<open>Separate Bluetooth manager\<close>

definition sep_loaded :: "bt_persisted \<Rightarrow> bt_printer" where
  "sep_loaded c =
     \<lparr>pid = s_id c, name = s_name c, status = ''disconnected'', lastUsed = s_lastUsed c,
      deviceId = s_deviceId c, device = None, server = None, connectedAt = s_connectedAt c,
      connectionAttempts = 0, shared = False\<rparr>"

definition sep_loadPersistedConnections :: "bt_state \<Rightarrow> bt_state" where
  "sep_loadPersistedConnections st =
     (case storage st of
        None \<Rightarrow> st
      | Some printers \<Rightarrow>
          st\<lparr>connectedPrinters :=
               foldl (\<lambda>ps c. map_set (sep_loaded c) ps) (connectedPrinters st) printers\<rparr>)"



text \<open>\<^verbatim>\<open>sendDataInChunks(characteristic, data, useWriteWithoutResponse)\<close>: the chunk
  size is the local constant 20 and a delay of 50 ms follows every write.\<close>

definition write_effect :: "bool \<Rightarrow> nat \<Rightarrow> byte list \<Rightarrow> effect" where
  "write_effect useWriteWithoutResponse i chunk =
     (if useWriteWithoutResponse then WriteValueWithoutResponse i chunk else WriteValue i chunk)"

partial_function (option) sendDataInChunks_loop ::
  "nat \<Rightarrow> (nat \<Rightarrow> bool) \<Rightarrow> bool \<Rightarrow> byte list \<Rightarrow> nat \<Rightarrow> effect list \<Rightarrow> (bool \<times> effect list) option" where
  "sendDataInChunks_loop chunkSize wr useWriteWithoutResponse data i lg =
     (if i < length data then
        (if wr i then
           sendDataInChunks_loop chunkSize wr useWriteWithoutResponse data (i + chunkSize)
             (lg @ [write_effect useWriteWithoutResponse i (take chunkSize (drop i data)), Delay 50])
         else Some (False, lg @ [write_effect useWriteWithoutResponse i (take chunkSize (drop i data))]))
      else Some (True, lg))"

definition sendDataInChunks ::
  "(nat \<Rightarrow> bool) \<Rightarrow> byte list \<Rightarrow> bool \<Rightarrow> effect list \<Rightarrow> (bool \<times> effect list) option" where
  "sendDataInChunks wr data useWriteWithoutResponse lg =
     sendDataInChunks_loop 20 wr useWriteWithoutResponse data 0 lg"

text \<open>\<^verbatim>\<open>printToBluetoothPrinter(printerId, content)\<close>. Of \<^verbatim>\<open>sendDataToBluetoothDevice\<close> the
  guard on the server is modelled; the search for a characteristic, the five sending
  approaches and the alternative methods behind it are an answer of the environment:
  \<open>send\<close> gives the outcome and the effects of that part.\<close>

definition sendDataToBluetoothDevice ::
  "(bt_printer \<Rightarrow> byte list \<Rightarrow> (string + unit) \<times> effect list) \<Rightarrow> bt_printer \<Rightarrow> byte list \<Rightarrow>
     effect list \<Rightarrow> (string + unit) \<times> effect list" where
  "sendDataToBluetoothDevice send printer data lg =
     (case server printer of
        None \<Rightarrow> (Inl ''Bluetooth device not connected'', lg)
      | Some s \<Rightarrow>
          if \<not> gatt_connected s then (Inl ''Bluetooth device not connected'', lg)
          else (fst (send printer data), lg @ snd (send printer data)))"

definition printToBluetoothPrinter ::
  "(bt_printer \<Rightarrow> byte list \<Rightarrow> (string + unit) \<times> effect list) \<Rightarrow> string \<Rightarrow> string \<Rightarrow> byte list \<Rightarrow>
     bt_state \<Rightarrow> (string + bool) \<times> bt_state" where
  "printToBluetoothPrinter send t printerId data st =
     (case map_get printerId (connectedPrinters st) of
        None \<Rightarrow> (Inl ''Printer not found'', st)
      | Some printer \<Rightarrow>
          if status printer \<noteq> ''connected'' then (Inl ''Printer not connected'', st)
          else
            (case sendDataToBluetoothDevice send printer data (log st) of
               (Inl msg, lg) \<Rightarrow> (Inl msg, st\<lparr>log := lg\<rparr>)
             | (Inr _, lg) \<Rightarrow>
                 (Inr True,
                  savePersistedConnections
                    (st\<lparr>log := lg,
                        connectedPrinters :=
                          upd_first (\<lambda>p. pid p = printerId) (\<lambda>p. p\<lparr>lastUsed := t\<rparr>)
                            (connectedPrinters st)\<rparr>))))"

section \<open>WiFi manager\<close>

record wifi_printer = printer_base +
  ip :: string
  port :: int

record wifi_persisted = persisted_base +
  s_ip :: string
  s_port :: int

datatype wifi_effect =
    WPersist "wifi_persisted list"
  | WNotify string string
  | PostTest string int
  | PostPrint string int string

record wifi_state =
  w_printers :: "wifi_printer list"
  w_storage :: "wifi_persisted list option"
  w_connectionTimes :: "int list"
  w_printTimes :: "int list"
  errorCount :: nat
  w_log :: "wifi_effect list"

text \<open>Answers of the backend. For the reachability test: success, a refusal with the
  optional \<^verbatim>\<open>data.error\<close>, a failed request, or no answer before the timeout. For a
  print job: a rejected request (or an unreadable body) with its message, a response
  that is not \<^verbatim>\<open>ok\<close> with the message built from its status, or the body with
  \<^verbatim>\<open>success\<close> and the optional \<^verbatim>\<open>error\<close>.\<close>

datatype test_outcome = TestOk | TestRefused "string option" | TestError | TestTimeout

datatype wifi_response = FetchRejected string | HttpNotOk string | Body bool "string option"

record wifi_env =
  test_response :: "string \<Rightarrow> int \<Rightarrow> test_outcome"
  print_response :: "string \<Rightarrow> int \<Rightarrow> wifi_response"
  w_now :: string
  w_elapsed :: int

definition wemit :: "wifi_effect \<Rightarrow> wifi_state \<Rightarrow> wifi_state" where
  "wemit e st = st\<lparr>w_log := w_log st @ [e]\<rparr>"

definition wifi_to_persisted :: "wifi_printer \<Rightarrow> wifi_persisted" where
  "wifi_to_persisted p =
     \<lparr>s_id = pid p, s_name = name p, s_lastUsed = lastUsed p, s_status = Some (status p),
      s_ip = ip p, s_port = port p\<rparr>"

definition wifi_savePersistedConnections :: "wifi_state \<Rightarrow> wifi_state" where
  "wifi_savePersistedConnections st =
     (let connections = map wifi_to_persisted (w_printers st)
      in wemit (WPersist connections) (st\<lparr>w_storage := Some connections\<rparr>))"

text \<open>\<^verbatim>\<open>loadPersistedConnections()\<close> keeps the saved status:
  \<^verbatim>\<open>status: connection.status || 'disconnected'\<close>. A missing status and the empty
  string are falsy.\<close>

definition wifi_loaded :: "wifi_persisted \<Rightarrow> wifi_printer" where
  "wifi_loaded c =
     \<lparr>pid = s_id c, name = s_name c,
      status = (case s_status c of
                  None \<Rightarrow> ''disconnected''
                | Some s \<Rightarrow> if s = [] then ''disconnected'' else s),
      lastUsed = s_lastUsed c, ip = s_ip c, port = s_port c\<rparr>"

definition wifi_loadPersistedConnections :: "wifi_state \<Rightarrow> wifi_state" where
  "wifi_loadPersistedConnections st =
     (case w_storage st of
        None \<Rightarrow> st
      | Some connections \<Rightarrow>
          st\<lparr>w_printers := foldl (\<lambda>ps c. map_set (wifi_loaded c) ps) (w_printers st) connections\<rparr>)"

definition findPrinterByAddress :: "string \<Rightarrow> int \<Rightarrow> wifi_printer list \<Rightarrow> wifi_printer option" where
  "findPrinterByAddress a b ps = find (\<lambda>p. ip p = a \<and> port p = b) ps"

text \<open>\<^verbatim>\<open>addPrinter(name, ip, port)\<close> of \<^verbatim>\<open>static/js/wifi-printer-manager.js\<close>. The id
  built from the clock and a random number, and the timestamp, are parameters.\<close>

definition wifi_addPrinter ::
  "string \<Rightarrow> string \<Rightarrow> string \<Rightarrow> string \<Rightarrow> int \<Rightarrow> wifi_state \<Rightarrow> string \<times> wifi_state" where
  "wifi_addPrinter newId t nm a b st =
     (case findPrinterByAddress a b (w_printers st) of
        Some existingPrinter \<Rightarrow>
          (pid existingPrinter,
           wifi_savePersistedConnections
             (st\<lparr>w_printers :=
                  upd_first (\<lambda>p. ip p = a \<and> port p = b) (\<lambda>p. p\<lparr>name := nm, lastUsed := t\<rparr>)
                    (w_printers st)\<rparr>))
      | None \<Rightarrow>
          (newId,
           wifi_savePersistedConnections
             (st\<lparr>w_printers :=
                  map_set \<lparr>pid = newId, name = nm, status = ''disconnected'', lastUsed = t,
                           ip = a, port = b\<rparr> (w_printers st)\<rparr>)))"

text \<open>\<^verbatim>\<open>addPrinter(name, ip, port)\<close> of the other copy of the WiFi manager, which has
  neither \<^verbatim>\<open>findPrinterByAddress\<close> nor \<^verbatim>\<open>cleanupDuplicates\<close>.\<close>

definition wifi_old_addPrinter ::
  "string \<Rightarrow> string \<Rightarrow> string \<Rightarrow> string \<Rightarrow> int \<Rightarrow> wifi_state \<Rightarrow> string \<times> wifi_state" where
  "wifi_old_addPrinter newId t nm a b st =
     (newId,
      wifi_savePersistedConnections
        (st\<lparr>w_printers :=
             map_set \<lparr>pid = newId, name = nm, status = ''disconnected'', lastUsed = t,
                      ip = a, port = b\<rparr> (w_printers st)\<rparr>))"

definition wifi_getConnectedPrinters :: "wifi_state \<Rightarrow> wifi_printer list" where
  "wifi_getConnectedPrinters st = filter (\<lambda>p. status p = ''connected'') (w_printers st)"

text \<open>\<^verbatim>\<open>connectPrinter(printerId)\<close>: the promise is returned, not awaited, inside the
  \<^verbatim>\<open>try\<close>, so its rejection does not count an error. An answer that arrives after the
  timeout is not modelled.\<close>

definition connectPrinter :: "wifi_env \<Rightarrow> string \<Rightarrow> wifi_state \<Rightarrow> (string + unit) \<times> wifi_state" where
  "connectPrinter env printerId st =
     (case map_get printerId (w_printers st) of
        None \<Rightarrow> (Inl ''Printer not found'', st)
      | Some printer \<Rightarrow>
          (let st1 = wemit (PostTest (ip printer) (port printer)) st in
           case test_response env (ip printer) (port printer) of
             TestOk \<Rightarrow>
               (let st2 = st1\<lparr>w_printers :=
                              upd_first (\<lambda>p. pid p = printerId)
                                (\<lambda>p. p\<lparr>status := ''connected'', lastUsed := w_now env\<rparr>)
                                (w_printers st1),
                            w_connectionTimes := w_connectionTimes st1 @ [w_elapsed env]\<rparr>;
                    st3 = wemit (WNotify ''connected'' printerId) st2
                in (Inr (), wifi_savePersistedConnections st3))
           | TestRefused err \<Rightarrow>
               (Inl (case err of
                       None \<Rightarrow> ''Failed to connect to '' @ name printer
                     | Some e \<Rightarrow> if e = [] then ''Failed to connect to '' @ name printer else e),
                st1)
           | TestError \<Rightarrow> (Inl (''Failed to connect to '' @ name printer), st1)
           | TestTimeout \<Rightarrow> (Inl ''Connection timeout'', st1)))"

text \<open>\<^verbatim>\<open>attemptReconnectAllPrinters()\<close>: the attempts are run one after the other; a
  failed one is logged and dropped.\<close>

definition attemptReconnectAllPrinters :: "wifi_env \<Rightarrow> wifi_state \<Rightarrow> wifi_state" where
  "attemptReconnectAllPrinters env st =
     foldl (\<lambda>s p. snd (connectPrinter env (pid p) s)) st
       (filter (\<lambda>p. status p = ''disconnected'') (w_printers st))"

definition wifi_print_error :: "wifi_response \<Rightarrow> string option" where
  "wifi_print_error r =
     (case r of
        FetchRejected msg \<Rightarrow> Some msg
      | HttpNotOk msg \<Rightarrow> Some msg
      | Body ok err \<Rightarrow>
          if ok then None
          else Some (case err of
                       None \<Rightarrow> ''Print failed''
                     | Some e \<Rightarrow> if e = [] then ''Print failed'' else e))"

definition wifi_printToPrinter ::
  "wifi_env \<Rightarrow> string \<Rightarrow> string \<Rightarrow> wifi_state \<Rightarrow> (string + bool) \<times> wifi_state" where
  "wifi_printToPrinter env printerId content st =
     (case map_get printerId (w_printers st) of
        None \<Rightarrow> (Inl ''Printer not connected'', st)
      | Some printer \<Rightarrow>
          if status printer \<noteq> ''connected'' then (Inl ''Printer not connected'', st)
          else
            (let st1 = wemit (PostPrint (ip printer) (port printer) content) st in
             case wifi_print_error (print_response env (ip printer) (port printer)) of
               None \<Rightarrow> (Inr True, st1\<lparr>w_printTimes := w_printTimes st1 @ [w_elapsed env]\<rparr>)
             | Some msg \<Rightarrow>
                 (Inl (if str_includes msg ''Failed to print''
                       then ''Printing failed: '' @ msg @
                            ''. This device might not be a thermal printer or may not support raw printing.''
                       else msg),
                  st1\<lparr>errorCount := errorCount st1 + 1\<rparr>)))"

text \<open>The fan-out of \<^verbatim>\<open>printToAllPrinters(content)\<close> over the list taken at the start of
  the call, one printer after the other in list order.\<close>

fun wifi_print_each ::
  "wifi_env \<Rightarrow> wifi_printer list \<Rightarrow> string \<Rightarrow> wifi_state \<Rightarrow> print_result list \<times> wifi_state" where
  "wifi_print_each env [] content st = ([], st)"
| "wifi_print_each env (p # ps) content st =
     (if status p \<noteq> ''connected'' then
        (case wifi_print_each env ps content st of
           (rs, st') \<Rightarrow> (to_result (pid p) (Inl ''Printer not connected'') # rs, st'))
      else
        (case wifi_printToPrinter env (pid p) content st of
           (Inr ok, st1) \<Rightarrow>
             (case wifi_print_each env ps content st1 of
                (rs, st') \<Rightarrow> (to_result (pid p) (Inr ok) # rs, st'))
         | (Inl msg, st1) \<Rightarrow>
             (let st2 = (if str_includes msg ''Connection refused'' \<or> str_includes msg ''timeout''
                         then wifi_savePersistedConnections
                                (st1\<lparr>w_printers :=
                                      upd_first (\<lambda>q. pid q = pid p) (\<lambda>q. q\<lparr>status := ''disconnected''\<rparr>)
                                        (w_printers st1)\<rparr>)
                         else st1)
              in case wifi_print_each env ps content st2 of
                   (rs, st') \<Rightarrow> (to_result (pid p) (Inl msg) # rs, st'))))"

text \<open>\<^verbatim>\<open>printToAllPrinters(content)\<close>: when nothing is connected a reconnection of all
  disconnected printers is tried; the fan-out then still maps over the list taken
  before it.\<close>

definition wifi_printToAllPrinters ::
  "wifi_env \<Rightarrow> string \<Rightarrow> wifi_state \<Rightarrow> (string + print_result list) \<times> wifi_state" where
  "wifi_printToAllPrinters env content st =
     (let connected = wifi_getConnectedPrinters st in
      if length connected = 0 then
        (let st1 = attemptReconnectAllPrinters env st in
         if length (wifi_getConnectedPrinters st1) = 0
         then (Inl ''No WiFi printers available after reconnection attempt'', st1)
         else (case wifi_print_each env connected content st1 of (rs, st') \<Rightarrow> (Inr rs, st')))
      else (case wifi_print_each env connected content st of (rs, st') \<Rightarrow> (Inr rs, st')))"

record wifi_metrics = metrics +
  m_errorCount :: nat

definition wifi_getMetrics :: "wifi_state \<Rightarrow> wifi_metrics" where
  "wifi_getMetrics st =
     \<lparr>avgConnectionTime = js_round (average (w_connectionTimes st)),
      avgPrintTime = js_round (average (w_printTimes st)),
      totalConnections = length (w_connectionTimes st),
      totalPrints = length (w_printTimes st),
      m_errorCount = errorCount st\<rparr>"

section \<open>Unified manager\<close>

text \<open>\<^verbatim>\<open>getMetrics()\<close>. A manager that is absent gives the empty object, whose
  properties read as \<^verbatim>\<open>undefined\<close> (\<open>None\<close>). The expression
  \<^verbatim>\<open>b || 0 + w || 0\<close> is parsed as \<^verbatim>\<open>b || (0 + w) || 0\<close>: addition binds tighter than
  \<^verbatim>\<open>||\<close>, which gives its first truthy operand; \<^verbatim>\<open>0 + undefined\<close> is \<^verbatim>\<open>NaN\<close>, falsy like
  \<^verbatim>\<open>0\<close> and \<^verbatim>\<open>undefined\<close>.\<close>

definition or_zero_plus_or_zero :: "int option \<Rightarrow> int option \<Rightarrow> int" where
  "or_zero_plus_or_zero b w =
     (let rest = (case w of
                    None \<Rightarrow> 0
                  | Some y \<Rightarrow> if 0 + y \<noteq> 0 then 0 + y else 0)
      in case b of
           None \<Rightarrow> rest
         | Some x \<Rightarrow> if x \<noteq> 0 then x else rest)"

text \<open>\<^verbatim>\<open>(x || 0)\<close> on a count.\<close>

definition or_zero :: "nat option \<Rightarrow> nat" where
  "or_zero v = (case v of None \<Rightarrow> 0 | Some n \<Rightarrow> n)"

record unified_total =
  t_avgConnectionTime :: rat
  t_avgPrintTime :: rat
  t_totalConnections :: nat
  t_totalPrints :: nat
  t_errorCount :: nat

definition unified_getMetrics :: "bt_state option \<Rightarrow> wifi_state option \<Rightarrow> unified_total" where
  "unified_getMetrics bluetoothManager wifiManager =
     (let bluetoothMetrics = map_option getMetrics bluetoothManager;
          wifiMetrics = map_option wifi_getMetrics wifiManager
      in \<lparr>t_avgConnectionTime =
              of_int (or_zero_plus_or_zero (map_option avgConnectionTime bluetoothMetrics)
                        (map_option avgConnectionTime wifiMetrics)) / 2,
          t_avgPrintTime =
              of_int (or_zero_plus_or_zero (map_option avgPrintTime bluetoothMetrics)
                        (map_option avgPrintTime wifiMetrics)) / 2,
          t_totalConnections =
              or_zero (map_option totalConnections bluetoothMetrics) +
              or_zero (map_option totalConnections wifiMetrics),
          t_totalPrints =
              or_zero (map_option totalPrints bluetoothMetrics) +
              or_zero (map_option totalPrints wifiMetrics),
          t_errorCount = or_zero None + or_zero (map_option m_errorCount wifiMetrics)\<rparr>)"

section \<open>Observations on the log of effects\<close>



text \<open>The writes of a log, each with its offset and its chunk.\<close>

fun writes_of :: "effect list \<Rightarrow> (nat \<times> byte list) list" where
  "writes_of [] = []"
| "writes_of (WriteValue i c # es) = (i, c) # writes_of es"
| "writes_of (WriteValueWithoutResponse i c # es) = (i, c) # writes_of es"
| "writes_of (e # es) = writes_of es"

text \<open>A list with a separator between consecutive elements and none after the last.\<close>

fun sep_by :: "'a \<Rightarrow> 'a list \<Rightarrow> 'a list" where
  "sep_by s [] = []"
| "sep_by s [x] = [x]"
| "sep_by s (x # y # ys) = x # s # sep_by s (y # ys)"

text \<open>The number of chunks of a payload of \<open>L\<close> bytes, \<open>L\<close> over \<open>C\<close> rounded up.\<close>

definition chunk_count :: "nat \<Rightarrow> nat \<Rightarrow> nat" where
  "chunk_count L C = (L + C - 1) div C"

text \<open>The result a printer gets when it alone is printed to from a given state.\<close>

definition print_alone :: "bt_env \<Rightarrow> byte list \<Rightarrow> bt_state \<Rightarrow> bt_printer \<Rightarrow> print_result option" where
  "print_alone env data st p =
     map_option (\<lambda>x. to_result (pid p) (fst x)) (printToPrinter env (pid p) data st)"

definition wifi_print_alone :: "wifi_env \<Rightarrow> string \<Rightarrow> wifi_state \<Rightarrow> wifi_printer \<Rightarrow> print_result" where
  "wifi_print_alone env content st p =
     to_result (pid p) (fst (wifi_printToPrinter env (pid p) content st))"

text \<open>What the guards of a print read of a printer object.\<close>

definition handles :: "bt_printer \<Rightarrow> string \<times> string \<times> bt_device option \<times> bt_device option" where
  "handles p = (pid p, status p, device p, server p)"

section \<open>Example states\<close>

definition ex_device :: bt_device where
  "ex_device = \<lparr>dev_id = ''AA:BB'', dev_name = ''POS-1'', gatt_connected = True\<rparr>"

definition ex_printer :: bt_printer where
  "ex_printer =
     \<lparr>pid = ''ble_1'', name = ''POS-1'', status = ''connected'', lastUsed = ''t0'',
      deviceId = ''AA:BB'', device = Some ex_device, server = Some ex_device,
      connectedAt = ''t0'', connectionAttempts = 0, shared = True\<rparr>"

definition ex_state :: bt_state where
  "ex_state =
     \<lparr>connectedPrinters = [ex_printer], storage = None, supportsGetDevices = True,
      hasBroadcastChannel = True, reconnectAttempts = 0, maxReconnectAttempts = 3,
      reconnectDelay = 2000, connectionStatus = ''connected'', connectionTimes = [],
      printTimes = [], log = []\<rparr>"

text \<open>The same registry as a sibling tab holds it after a reload: the record is
  disconnected and has no handle.\<close>

definition ex_state_tab :: bt_state where
  "ex_state_tab = ex_state\<lparr>connectedPrinters := [bt_loaded (to_persisted ex_printer)]\<rparr>"

definition ex_wifi_printer :: wifi_printer where
  "ex_wifi_printer =
     \<lparr>pid = ''wifi_1'', name = ''Kitchen'', status = ''connected'', lastUsed = ''t0'',
      ip = ''192.168.1.50'', port = 9100\<rparr>"

definition ex_wifi_state :: wifi_state where
  "ex_wifi_state =
     \<lparr>w_printers = [ex_wifi_printer], w_storage = Some [wifi_to_persisted ex_wifi_printer],
      w_connectionTimes = [50], w_printTimes = [20], errorCount = 0, w_log = []\<rparr>"

text \<open>A WiFi manager as the constructor leaves it before loading, over the storage of
  \<open>ex_wifi_state\<close>.\<close>

definition ex_wifi_fresh :: wifi_state where
  "ex_wifi_fresh = ex_wifi_state\<lparr>w_printers := [], w_connectionTimes := [], w_printTimes := []\<rparr>"

text \<open>A Bluetooth manager before loading, over a snapshot that carries a status.\<close>

definition ex_bt_fresh :: bt_state where
  "ex_bt_fresh =
     ex_state\<lparr>connectedPrinters := [],
              storage := Some [(to_persisted ex_printer)\<lparr>s_status := Some ''connected''\<rparr>]\<rparr>"

text \<open>A Bluetooth manager that has recorded one connection and one print.\<close>

definition ex_state_timed :: bt_state where
  "ex_state_timed = ex_state\<lparr>connectionTimes := [100], printTimes := [40]\<rparr>"

text \<open>An environment of the Separate manager in which sending succeeds with one write.\<close>

definition ex_send :: "bt_printer \<Rightarrow> byte list \<Rightarrow> (string + unit) \<times> effect list" where
  "ex_send p data = (Inr (), [WriteValueWithoutResponse 0 data])"

text \<open>An environment of the Enhanced manager in which everything succeeds.\<close>

definition ex_env :: bt_env where
  "ex_env =
     \<lparr>getDevices_result = Some [ex_device], requestDevice_result = Chosen ex_device,
      connect_ok = (\<lambda>d. True), known_channel = (\<lambda>p k. k = 0), scan_channel = (\<lambda>p. False),
      write_ok = (\<lambda>p i. True), now = ''t3'', elapsed = 12\<rparr>"

definition ex_wifi_env :: wifi_env where
  "ex_wifi_env =
     \<lparr>test_response = (\<lambda>a b. TestOk), print_response = (\<lambda>a b. Body True None),
      w_now = ''t3'', w_elapsed = 30\<rparr>"

text \<open>The browser knows no paired device.\<close>

definition ex_env_unpaired :: bt_env where
  "ex_env_unpaired = ex_env\<lparr>getDevices_result := Some []\<rparr>"

text \<open>The paired printer is known to the browser but its GATT link is down.\<close>

definition ex_env_paired :: bt_env where
  "ex_env_paired = ex_env\<lparr>getDevices_result := Some [ex_device\<lparr>gatt_connected := False\<rparr>]\<rparr>"

text \<open>A characteristic on which every write resolves.\<close>

definition ex_wr :: "nat \<Rightarrow> bool" where
  "ex_wr i = True"

text \<open>Two connected printers of each kind, and environments in which the second one
  fails: its writes reject, or its address refuses the connection.\<close>

definition ex_printer2 :: bt_printer where
  "ex_printer2 = ex_printer\<lparr>pid := ''ble_2'', name := ''POS-2'', deviceId := ''CC:DD''\<rparr>"

definition ex_state2 :: bt_state where
  "ex_state2 = ex_state\<lparr>connectedPrinters := [ex_printer, ex_printer2]\<rparr>"

definition ex_env_fail :: bt_env where
  "ex_env_fail = ex_env\<lparr>write_ok := (\<lambda>p i. p \<noteq> ''ble_2'')\<rparr>"

definition ex_wifi_printer2 :: wifi_printer where
  "ex_wifi_printer2 = ex_wifi_printer\<lparr>pid := ''wifi_2'', name := ''Bar'', ip := ''192.168.1.51''\<rparr>"

definition ex_wifi_state2 :: wifi_state where
  "ex_wifi_state2 = ex_wifi_state\<lparr>w_printers := [ex_wifi_printer2, ex_wifi_printer]\<rparr>"

definition ex_wifi_env_fail :: wifi_env where
  "ex_wifi_env_fail =
     ex_wifi_env\<lparr>print_response :=
       (\<lambda>a b. if a = ''192.168.1.51'' then FetchRejected ''Connection refused'' else Body True None)\<rparr>"

text \<open>A tab without \<^verbatim>\<open>getDevices\<close> that loads the snapshot of \<open>ex_printer\<close> and is then
  connected to the same device by the user: the loaded record is not connected, so
  \<^verbatim>\<open>addPrinter\<close> stores a second record for the device behind it.\<close>

definition ex_state_stale :: bt_state where
  "ex_state_stale =
     snd (addPrinter ''ble_2'' ''t1'' ex_device ex_device
            (loadPersistedConnections (ex_bt_fresh\<lparr>supportsGetDevices := False\<rparr>)))"

text \<open>The message another tab sends when its link to that device drops.\<close>

definition ex_meta_drop :: bt_meta where
  "ex_meta_drop =
     \<lparr>m_id = ''ble_1'', m_name = ''POS-1'', m_deviceId = ''AA:BB'',
      m_status = ''disconnected'', m_connectedAt = ''t0'', m_lastUsed = ''t0''\<rparr>"


section \<open>Facts about the map operations\<close>

lemma map_upd_first_same:
  "(\<And>x. g (f x) = g x) \<Longrightarrow> map g (upd_first P f xs) = map g xs"
  by (induction xs) auto

lemma find_upd_first:
  "find P xs = Some x \<Longrightarrow> P (f x) \<Longrightarrow> find P (upd_first P f xs) = Some (f x)"
  by (induction xs) (auto split: if_splits)

lemma find_Some_P: "find P xs = Some x \<Longrightarrow> P x"
  by (induction xs) (auto split: if_splits)

lemma map_get_pid: "map_get k ps = Some p \<Longrightarrow> pid p = k"
  unfolding map_get_def by (drule find_Some_P) simp

lemma map_get_upd_first:
  "map_get k ps = Some p \<Longrightarrow> pid (f p) = k \<Longrightarrow>
   map_get k (upd_first (\<lambda>q. pid q = k) f ps) = Some (f p)"
  unfolding map_get_def by (rule find_upd_first) auto

lemma map_get_map_delete: "map_get k (map_delete k ps) = None"
  unfolding map_get_def map_delete_def by (induction ps) auto

section \<open>Link drop and disconnect\<close>

lemma handleDisconnection_get:
  "map_get i (connectedPrinters st) = Some p \<Longrightarrow>
   map_get i (connectedPrinters (handleDisconnection i st)) = Some (disconnected_upd p)"
  by (simp add: handleDisconnection_def Let_def savePersistedConnections_def emit_def
      notifyConnectionStatus_def attemptReconnectFromPairedDevices_start_def
      broadcastConnectionState_def map_get_upd_first map_get_pid disconnected_upd_def)

lemma handleDisconnection_unknown:
  "map_get i (connectedPrinters st) = None \<Longrightarrow> handleDisconnection i st = st"
  by (simp add: handleDisconnection_def)

text \<open>Claim C10. In the Enhanced Bluetooth manager \<^verbatim>\<open>disconnectPrinter(id)\<close> returns
  without a change of the registry, of the snapshot or of anything else when the id is
  unknown or the record holds no device object; with a device object the record is
  removed and the snapshot rewritten without it. \<^verbatim>\<open>handleDisconnection\<close> clears the
  device reference, so a disconnect right after a link drop changes nothing and the
  record stays in the registry.\<close>

theorem disconnectPrinter_needs_device:
  "(map_get i (connectedPrinters st) = None \<longrightarrow> disconnectPrinter i st = st) \<and>
   (\<forall>p. map_get i (connectedPrinters st) = Some p \<and> device p = None \<longrightarrow>
        disconnectPrinter i st = st) \<and>
   (\<forall>p d. map_get i (connectedPrinters st) = Some p \<and> device p = Some d \<longrightarrow>
        connectedPrinters (disconnectPrinter i st) = map_delete i (connectedPrinters st) \<and>
        map_get i (connectedPrinters (disconnectPrinter i st)) = None \<and>
        storage (disconnectPrinter i st) =
          Some (map to_persisted (map_delete i (connectedPrinters st)))) \<and>
   disconnectPrinter i (handleDisconnection i st) = handleDisconnection i st"
proof (intro conjI allI impI)
  show "disconnectPrinter i (handleDisconnection i st) = handleDisconnection i st"
  proof (cases "map_get i (connectedPrinters st)")
    case None
    then show ?thesis by (simp add: handleDisconnection_unknown disconnectPrinter_def)
  next
    case (Some p)
    from handleDisconnection_get[OF Some] show ?thesis
      by (simp add: disconnectPrinter_def disconnected_upd_def)
  qed
qed (auto simp: disconnectPrinter_def savePersistedConnections_def emit_def Let_def map_get_map_delete)

theorem disconnectPrinter_needs_device_witness:
  "map_get ''ble_9'' (connectedPrinters ex_state) = None \<and>
   disconnectPrinter ''ble_9'' ex_state = ex_state \<and>
   map_get ''ble_1'' (connectedPrinters (handleDisconnection ''ble_1'' ex_state)) =
     Some (disconnected_upd ex_printer) \<and>
   device (disconnected_upd ex_printer) = None \<and>
   disconnectPrinter ''ble_1'' (handleDisconnection ''ble_1'' ex_state) =
     handleDisconnection ''ble_1'' ex_state \<and>
   map_get ''ble_1'' (connectedPrinters ex_state) = Some ex_printer \<and>
   device ex_printer = Some ex_device \<and>
   connectedPrinters (disconnectPrinter ''ble_1'' ex_state) = [] \<and>
   storage (disconnectPrinter ''ble_1'' ex_state) = Some []"
proof -
  have a: "map_get ''ble_9'' (connectedPrinters ex_state) = None"
    by (simp add: map_get_def ex_state_def ex_printer_def)
  have b: "map_get ''ble_1'' (connectedPrinters ex_state) = Some ex_printer"
    by (simp add: map_get_def ex_state_def ex_printer_def)
  have c: "device ex_printer = Some ex_device"
    by (simp add: ex_printer_def)
  have d: "map_get ''ble_1'' (connectedPrinters (handleDisconnection ''ble_1'' ex_state)) =
     Some (disconnected_upd ex_printer)"
    using b by (rule handleDisconnection_get)
  have e: "device (disconnected_upd ex_printer) = None"
    by (simp add: disconnected_upd_def)
  have f: "map_delete ''ble_1'' (connectedPrinters ex_state) = []"
    by (simp add: map_delete_def ex_state_def ex_printer_def)
  show ?thesis
    using disconnectPrinter_needs_device[of "''ble_9''" ex_state]
      disconnectPrinter_needs_device[of "''ble_1''" ex_state]
      disconnectPrinter_needs_device[of "''ble_1''" "handleDisconnection ''ble_1'' ex_state"]
      a b c d e f
    by simp
qed

section \<open>Cross-tab messages\<close>

lemma upd_first_keeps:
  "x \<in> set xs \<Longrightarrow> \<not> P x \<Longrightarrow> x \<in> set (upd_first P f xs)"
  by (induction xs) auto

lemma find_upd_first_pres:
  "find P xs = Some x \<Longrightarrow> (\<And>y. P y \<Longrightarrow> P (f y)) \<Longrightarrow> find P (upd_first P f xs) = Some (f x)"
  by (induction xs) (auto split: if_splits)

lemma broadcast_connect_fields:
  assumes "type = ''connected'' \<or> type = ''reconnected''"
  shows "map pid (connectedPrinters (handleBroadcastMessage type m st)) = map pid (connectedPrinters st)"
    and "map deviceId (connectedPrinters (handleBroadcastMessage type m st)) = map deviceId (connectedPrinters st)"
    and "map status (connectedPrinters (handleBroadcastMessage type m st)) = map status (connectedPrinters st)"
    and "map device (connectedPrinters (handleBroadcastMessage type m st)) = map device (connectedPrinters st)"
    and "map server (connectedPrinters (handleBroadcastMessage type m st)) = map server (connectedPrinters st)"
  using assms
  by (auto simp: handleBroadcastMessage_def savePersistedConnections_def emit_def Let_def
      map_upd_first_same split: option.splits)

lemma broadcast_connect_metadata:
  assumes "type = ''connected'' \<or> type = ''reconnected''"
    and "find (\<lambda>q. deviceId q = m_deviceId m) (connectedPrinters st) = Some p"
    and "status p = ''disconnected''"
  shows "find (\<lambda>q. deviceId q = m_deviceId m) (connectedPrinters (handleBroadcastMessage type m st)) =
          Some (p\<lparr>name := m_name m, connectedAt := m_connectedAt m, lastUsed := m_lastUsed m\<rparr>)"
proof -
  have "find (\<lambda>q. deviceId q = m_deviceId m)
          (upd_first (\<lambda>q. deviceId q = m_deviceId m)
             (\<lambda>p. p\<lparr>name := m_name m, connectedAt := m_connectedAt m, lastUsed := m_lastUsed m\<rparr>)
             (connectedPrinters st)) =
        Some (p\<lparr>name := m_name m, connectedAt := m_connectedAt m, lastUsed := m_lastUsed m\<rparr>)"
    using assms(2) by (rule find_upd_first_pres) simp
  with assms show ?thesis
    by (auto simp: handleBroadcastMessage_def savePersistedConnections_def emit_def Let_def)
qed

lemma broadcast_disconnect_forced:
  assumes "find (\<lambda>q. deviceId q = m_deviceId m) (connectedPrinters st) = Some p"
  shows "find (\<lambda>q. deviceId q = m_deviceId m)
           (connectedPrinters (handleBroadcastMessage ''disconnected'' m st)) =
          Some (p\<lparr>status := ''disconnected'', device := None, server := None\<rparr>)"
proof -
  have "find (\<lambda>q. deviceId q = m_deviceId m)
          (upd_first (\<lambda>q. deviceId q = m_deviceId m)
             (\<lambda>p. p\<lparr>status := ''disconnected'', device := None, server := None\<rparr>)
             (connectedPrinters st)) =
        Some (p\<lparr>status := ''disconnected'', device := None, server := None\<rparr>)"
    using assms by (rule find_upd_first_pres) simp
  with assms show ?thesis
    by (simp add: handleBroadcastMessage_def savePersistedConnections_def emit_def Let_def)
qed

lemma broadcast_others_kept:
  assumes "q \<in> set (connectedPrinters st)" and "deviceId q \<noteq> m_deviceId m"
  shows "q \<in> set (connectedPrinters (handleBroadcastMessage type m st))"
  using assms
  by (auto simp: handleBroadcastMessage_def savePersistedConnections_def emit_def Let_def
      upd_first_keeps split: option.splits)

text \<open>What \<^verbatim>\<open>handleBroadcastMessage\<close> does to the first record whose device id is that
  of the message, and to the others.\<close>

lemma handleBroadcastMessage_first_match:
  "((type = ''connected'' \<or> type = ''reconnected'') \<longrightarrow>
      map pid (connectedPrinters (handleBroadcastMessage type m st)) = map pid (connectedPrinters st) \<and>
      map deviceId (connectedPrinters (handleBroadcastMessage type m st)) = map deviceId (connectedPrinters st) \<and>
      map status (connectedPrinters (handleBroadcastMessage type m st)) = map status (connectedPrinters st) \<and>
      map device (connectedPrinters (handleBroadcastMessage type m st)) = map device (connectedPrinters st) \<and>
      map server (connectedPrinters (handleBroadcastMessage type m st)) = map server (connectedPrinters st)) \<and>
   (\<forall>p. (type = ''connected'' \<or> type = ''reconnected'') \<and>
        find (\<lambda>q. deviceId q = m_deviceId m) (connectedPrinters st) = Some p \<and>
        status p = ''disconnected'' \<longrightarrow>
        find (\<lambda>q. deviceId q = m_deviceId m) (connectedPrinters (handleBroadcastMessage type m st)) =
          Some (p\<lparr>name := m_name m, connectedAt := m_connectedAt m, lastUsed := m_lastUsed m\<rparr>)) \<and>
   (\<forall>p. type = ''disconnected'' \<and>
        find (\<lambda>q. deviceId q = m_deviceId m) (connectedPrinters st) = Some p \<longrightarrow>
        find (\<lambda>q. deviceId q = m_deviceId m) (connectedPrinters (handleBroadcastMessage type m st)) =
          Some (p\<lparr>status := ''disconnected'', device := None, server := None\<rparr>)) \<and>
   (\<forall>q \<in> set (connectedPrinters st). deviceId q \<noteq> m_deviceId m \<longrightarrow>
        q \<in> set (connectedPrinters (handleBroadcastMessage type m st)))"
proof (intro conjI allI ballI impI)
  fix p
  assume "(type = ''connected'' \<or> type = ''reconnected'') \<and>
        find (\<lambda>q. deviceId q = m_deviceId m) (connectedPrinters st) = Some p \<and>
        status p = ''disconnected''"
  then show "find (\<lambda>q. deviceId q = m_deviceId m) (connectedPrinters (handleBroadcastMessage type m st)) =
          Some (p\<lparr>name := m_name m, connectedAt := m_connectedAt m, lastUsed := m_lastUsed m\<rparr>)"
    using broadcast_connect_metadata[of type m st p] by simp
next
  fix p
  assume "type = ''disconnected'' \<and>
        find (\<lambda>q. deviceId q = m_deviceId m) (connectedPrinters st) = Some p"
  then show "find (\<lambda>q. deviceId q = m_deviceId m) (connectedPrinters (handleBroadcastMessage type m st)) =
          Some (p\<lparr>status := ''disconnected'', device := None, server := None\<rparr>)"
    using broadcast_disconnect_forced[of m st p] by simp
qed (simp_all add: broadcast_connect_fields broadcast_others_kept)

section \<open>Metrics\<close>

lemma js_round_nearest: "\<bar>of_int (js_round x) - x\<bar> \<le> 1 / 2"
  unfolding js_round_def by linarith

lemma js_round_zero: "js_round 0 = 0"
  unfolding js_round_def by linarith

lemma js_round_average:
  "js_round (average xs) =
     (if xs = [] then 0 else (2 * sum_list xs + int (length xs)) div (2 * int (length xs)))"
proof (cases "xs = []")
  case True
  then show ?thesis by (simp add: average_def js_round_zero)
next
  case False
  then have n: "0 < length xs" by simp
  have "(of_int (sum_list xs) / of_nat (length xs) + 1 / 2 :: rat) =
        of_int (2 * sum_list xs + int (length xs)) / of_int (2 * int (length xs))"
    using n by (simp add: field_simps)
  then have "js_round (of_int (sum_list xs) / of_nat (length xs)) =
        (2 * sum_list xs + int (length xs)) div (2 * int (length xs))"
    unfolding js_round_def by (simp only: floor_divide_of_int_eq)
  with False show ?thesis by (simp add: average_def)
qed

lemma getMetrics_averages:
  "avgConnectionTime (getMetrics st) =
     (if connectionTimes st = [] then 0
      else js_round (of_int (sum_list (connectionTimes st)) / of_nat (length (connectionTimes st))))"
  "avgPrintTime (getMetrics st) =
     (if printTimes st = [] then 0
      else js_round (of_int (sum_list (printTimes st)) / of_nat (length (printTimes st))))"
  by (simp_all add: getMetrics_def average_def js_round_zero)

lemma wifi_getMetrics_averages:
  "avgConnectionTime (wifi_getMetrics st) =
     (if w_connectionTimes st = [] then 0
      else js_round (of_int (sum_list (w_connectionTimes st)) / of_nat (length (w_connectionTimes st))))"
  "avgPrintTime (wifi_getMetrics st) =
     (if w_printTimes st = [] then 0
      else js_round (of_int (sum_list (w_printTimes st)) / of_nat (length (w_printTimes st))))"
  by (simp_all add: wifi_getMetrics_def average_def js_round_zero)

lemma or_zero_plus_or_zero_first:
  "or_zero_plus_or_zero (Some b) (Some w) = (if b \<noteq> 0 then b else w)"
  by (simp add: or_zero_plus_or_zero_def)

text \<open>Claim C9. Each manager reports an average as the mean of its recorded list
  rounded to the nearest integer, and 0 for an empty list (the lemmas above). The
  unified total is claimed to be the mean of the two managers' averages. With a
  Bluetooth average of 100 and a WiFi average of 50 the unified
  \<^verbatim>\<open>getMetrics\<close> reports 50, half of the Bluetooth average, where the mean is 75; for
  the print times it reports 20 where the mean of 40 and 20 is 30.\<close>

theorem unified_average_ignores_wifi:
  "avgConnectionTime (getMetrics ex_state_timed) = 100 \<and>
   avgConnectionTime (wifi_getMetrics ex_wifi_state) = 50 \<and>
   t_avgConnectionTime (unified_getMetrics (Some ex_state_timed) (Some ex_wifi_state)) = 50 \<and>
   avgPrintTime (getMetrics ex_state_timed) = 40 \<and>
   avgPrintTime (wifi_getMetrics ex_wifi_state) = 20 \<and>
   t_avgPrintTime (unified_getMetrics (Some ex_state_timed) (Some ex_wifi_state)) = 20 \<and>
   t_avgConnectionTime (unified_getMetrics (Some ex_state_timed) (Some ex_wifi_state)) \<noteq>
     (of_int (avgConnectionTime (getMetrics ex_state_timed)) +
      of_int (avgConnectionTime (wifi_getMetrics ex_wifi_state))) / 2"
  by (simp add: unified_getMetrics_def getMetrics_def wifi_getMetrics_def js_round_average
      or_zero_plus_or_zero_def ex_state_timed_def ex_state_def ex_wifi_state_def Let_def)

section \<open>Loading a snapshot\<close>

lemma find_upd_first_const:
  "find (\<lambda>q. key q = k) (upd_first (\<lambda>q. key q = key r) (\<lambda>_. r) ps) =
     (if key r = k then (if \<exists>q\<in>set ps. key q = k then Some r else None)
      else find (\<lambda>q. key q = k) ps)"
  by (induction ps) auto

lemma map_get_map_set:
  "map_get k (map_set r ps) = (if pid r = k then Some r else map_get k ps)"
proof (cases "\<exists>q\<in>set ps. pid q = pid r")
  case True
  then show ?thesis
    by (auto simp: map_get_def map_set_def find_upd_first_const)
next
  case False
  then have "find (\<lambda>p. pid p = k) (ps @ [r]) = (if pid r = k then Some r else find (\<lambda>p. pid p = k) ps)"
    by (induction ps) auto
  with False show ?thesis
    by (simp add: map_get_def map_set_def)
qed

lemma foldl_map_set_get:
  assumes "\<And>c. pid (f c) = key c" and "c \<in> set cs"
  shows "\<exists>c'\<in>set cs. key c' = key c \<and>
           map_get (key c) (foldl (\<lambda>ps c. map_set (f c) ps) ps cs) = Some (f c')"
  using assms(2)
proof (induction cs rule: rev_induct)
  case Nil
  then show ?case by simp
next
  case (snoc x xs)
  show ?case
  proof (cases "key x = key c")
    case True
    then show ?thesis by (auto simp: map_get_map_set assms(1))
  next
    case False
    with snoc.prems have "c \<in> set xs" by auto
    from snoc.IH[OF this] False show ?thesis
      by (auto simp: map_get_map_set assms(1))
  qed
qed

lemma set_map_set: "set (map_set r ps) \<subseteq> insert r (set ps)"
proof -
  have "set (upd_first P (\<lambda>_. r) ps) \<subseteq> insert r (set ps)" for P
    by (induction ps) auto
  then show ?thesis by (auto simp: map_set_def)
qed

lemma foldl_map_set_all:
  assumes "\<And>c. Q (f c)" and "\<forall>p\<in>set ps. Q p"
  shows "\<forall>p\<in>set (foldl (\<lambda>ps c. map_set (f c) ps) ps cs). Q p"
  using assms(2)
proof (induction cs arbitrary: ps)
  case Nil
  then show ?case by simp
next
  case (Cons c cs)
  have "\<forall>p\<in>set (map_set (f c) ps). Q p"
    using set_map_set[of "f c" ps] Cons.prems assms(1) by auto
  from Cons.IH[OF this] show ?case by simp
qed

lemma loadPersistedConnections_registry:
  "storage st = Some cs \<Longrightarrow>
   connectedPrinters (loadPersistedConnections st) =
     foldl (\<lambda>ps c. map_set (bt_loaded c) ps) (connectedPrinters st) cs"
  by (simp add: loadPersistedConnections_def attemptReconnectFromPairedDevices_start_def emit_def)

text \<open>Claim C5, as stated, fails for the WiFi manager: a snapshot entry saved as
  connected is loaded as connected.\<close>

theorem wifi_load_keeps_status_counterexample:
  "w_storage ex_wifi_fresh = Some [wifi_to_persisted ex_wifi_printer] \<and>
   s_status (wifi_to_persisted ex_wifi_printer) = Some ''connected'' \<and>
   map status (w_printers (wifi_loadPersistedConnections ex_wifi_fresh)) = [''connected'']"
  by (simp add: wifi_loadPersistedConnections_def ex_wifi_fresh_def ex_wifi_state_def
      wifi_to_persisted_def ex_wifi_printer_def wifi_loaded_def map_set_def)

text \<open>Claim C5, amended. In the Enhanced and the Separate Bluetooth manager every
  entry of the snapshot is in the registry after loading with status disconnected
  (and, in the Enhanced manager, without device and server), whatever status the
  entry carried; a manager that starts empty holds disconnected records only. The
  WiFi manager stores for every entry the record of an entry with that id, whose
  status is the saved one, and disconnected only when the saved status is missing or
  empty.\<close>

theorem load_status:
  "(storage st = Some cs \<longrightarrow>
      (\<forall>c\<in>set cs. \<exists>p. map_get (s_id c) (connectedPrinters (loadPersistedConnections st)) = Some p \<and>
           status p = ''disconnected'' \<and> device p = None \<and> server p = None) \<and>
      (\<forall>c\<in>set cs. \<exists>p. map_get (s_id c) (connectedPrinters (sep_loadPersistedConnections st)) = Some p \<and>
           status p = ''disconnected'') \<and>
      (connectedPrinters st = [] \<longrightarrow>
         (\<forall>p\<in>set (connectedPrinters (loadPersistedConnections st)). status p = ''disconnected'') \<and>
         (\<forall>p\<in>set (connectedPrinters (sep_loadPersistedConnections st)). status p = ''disconnected''))) \<and>
   (w_storage wst = Some ws \<longrightarrow>
      (\<forall>c\<in>set ws. \<exists>c'\<in>set ws. s_id c' = s_id c \<and>
           map_get (s_id c) (w_printers (wifi_loadPersistedConnections wst)) = Some (wifi_loaded c')) \<and>
      (\<forall>c. status (wifi_loaded c) =
           (case s_status c of None \<Rightarrow> ''disconnected''
            | Some s \<Rightarrow> if s = [] then ''disconnected'' else s)))"
proof (intro conjI impI ballI allI)
  fix c assume st: "storage st = Some cs" and c: "c \<in> set cs"
  have "\<exists>c'\<in>set cs. s_id c' = s_id c \<and>
           map_get (s_id c) (foldl (\<lambda>ps c. map_set (bt_loaded c) ps) (connectedPrinters st) cs) = Some (bt_loaded c')"
    by (rule foldl_map_set_get[OF _ c]) (simp add: bt_loaded_def)
  with st show "\<exists>p. map_get (s_id c) (connectedPrinters (loadPersistedConnections st)) = Some p \<and>
           status p = ''disconnected'' \<and> device p = None \<and> server p = None"
    by (auto simp: loadPersistedConnections_registry bt_loaded_def)
  have "\<exists>c'\<in>set cs. s_id c' = s_id c \<and>
           map_get (s_id c) (foldl (\<lambda>ps c. map_set (sep_loaded c) ps) (connectedPrinters st) cs) = Some (sep_loaded c')"
    by (rule foldl_map_set_get[OF _ c]) (simp add: sep_loaded_def)
  with st show "\<exists>p. map_get (s_id c) (connectedPrinters (sep_loadPersistedConnections st)) = Some p \<and>
           status p = ''disconnected''"
    by (auto simp: sep_loadPersistedConnections_def sep_loaded_def)
next
  fix p assume st: "storage st = Some cs" and e: "connectedPrinters st = []"
    and p: "p \<in> set (connectedPrinters (loadPersistedConnections st))"
  have "\<forall>p\<in>set (foldl (\<lambda>ps c. map_set (bt_loaded c) ps) [] cs). status p = ''disconnected''"
    by (rule foldl_map_set_all) (simp_all add: bt_loaded_def)
  with st e p show "status p = ''disconnected''"
    by (auto simp: loadPersistedConnections_registry)
next
  fix p assume st: "storage st = Some cs" and e: "connectedPrinters st = []"
    and p: "p \<in> set (connectedPrinters (sep_loadPersistedConnections st))"
  have "\<forall>p\<in>set (foldl (\<lambda>ps c. map_set (sep_loaded c) ps) [] cs). status p = ''disconnected''"
    by (rule foldl_map_set_all) (simp_all add: sep_loaded_def)
  with st e p show "status p = ''disconnected''"
    by (auto simp: sep_loadPersistedConnections_def)
next
  fix c assume st: "w_storage wst = Some ws" and c: "c \<in> set ws"
  have "\<exists>c'\<in>set ws. s_id c' = s_id c \<and>
           map_get (s_id c) (foldl (\<lambda>ps c. map_set (wifi_loaded c) ps) (w_printers wst) ws) = Some (wifi_loaded c')"
    by (rule foldl_map_set_get[OF _ c]) (simp add: wifi_loaded_def)
  with st show "\<exists>c'\<in>set ws. s_id c' = s_id c \<and>
           map_get (s_id c) (w_printers (wifi_loadPersistedConnections wst)) = Some (wifi_loaded c')"
    by (auto simp: wifi_loadPersistedConnections_def)
next
  fix c show "status (wifi_loaded c) =
           (case s_status c of None \<Rightarrow> ''disconnected''
            | Some s \<Rightarrow> if s = [] then ''disconnected'' else s)"
    by (simp add: wifi_loaded_def)
qed

theorem load_status_witness:
  "storage ex_bt_fresh = Some [(to_persisted ex_printer)\<lparr>s_status := Some ''connected''\<rparr>] \<and>
   connectedPrinters ex_bt_fresh = [] \<and>
   map status (connectedPrinters (loadPersistedConnections ex_bt_fresh)) = [''disconnected''] \<and>
   map status (connectedPrinters (sep_loadPersistedConnections ex_bt_fresh)) = [''disconnected''] \<and>
   w_storage ex_wifi_fresh = Some [wifi_to_persisted ex_wifi_printer] \<and>
   map_get ''wifi_1'' (w_printers (wifi_loadPersistedConnections ex_wifi_fresh)) =
     Some (wifi_loaded (wifi_to_persisted ex_wifi_printer)) \<and>
   status (wifi_loaded (wifi_to_persisted ex_wifi_printer)) = ''connected''"
  using load_status[of ex_bt_fresh "[(to_persisted ex_printer)\<lparr>s_status := Some ''connected''\<rparr>]"
      ex_wifi_fresh "[wifi_to_persisted ex_wifi_printer]"]
  by (simp add: loadPersistedConnections_def sep_loadPersistedConnections_def
      wifi_loadPersistedConnections_def attemptReconnectFromPairedDevices_start_def emit_def
      ex_bt_fresh_def ex_state_def ex_wifi_fresh_def ex_wifi_state_def map_set_def map_get_def
      bt_loaded_def sep_loaded_def wifi_loaded_def to_persisted_def wifi_to_persisted_def
      ex_printer_def ex_wifi_printer_def)

section \<open>Registration of WiFi printers\<close>

lemma upd_first_fixed:
  "find P xs = Some x \<Longrightarrow> f x = x \<Longrightarrow> upd_first P f xs = xs"
  by (induction xs) (auto split: if_splits)

lemma length_upd_first: "length (upd_first P f xs) = length xs"
  by (induction xs) auto

lemma find_None_iff_all: "find P xs = None \<longleftrightarrow> (\<forall>x\<in>set xs. \<not> P x)"
  by (induction xs) auto

lemma find_map_set_new:
  assumes "find P ps = None" and "P r"
  shows "find P (map_set r ps) = Some r"
proof -
  from assms(1) have none: "\<forall>x\<in>set ps. \<not> P x" by (simp add: find_None_iff_all)
  have a: "(\<exists>q\<in>set ps. Q q) \<Longrightarrow> find P (upd_first Q (\<lambda>_. r) ps) = Some r" for Q
    using none assms(2) by (induction ps) auto
  have b: "find P (ps @ [r]) = Some r"
    using none assms(2) by (induction ps) auto
  show ?thesis using a b by (simp add: map_set_def)
qed

lemma distinct_map_set_new:
  assumes "distinct (map g ps)" and "g r \<notin> g ` set ps"
  shows "distinct (map g (map_set r ps))"
proof -
  have sub: "set (upd_first Q (\<lambda>_. r) xs) \<subseteq> insert r (set xs)" for Q xs
    by (induction xs) auto
  have "distinct (map g xs) \<Longrightarrow> g r \<notin> g ` set xs \<Longrightarrow> distinct (map g (upd_first Q (\<lambda>_. r) xs))" for Q xs
  proof (induction xs)
    case Nil
    then show ?case by simp
  next
    case (Cons x xs)
    show ?case
    proof (cases "Q x")
      case True
      with Cons.prems show ?thesis by auto
    next
      case False
      have "g x \<notin> g ` set (upd_first Q (\<lambda>_. r) xs)"
        using sub[of Q xs] Cons.prems by auto
      with False Cons show ?thesis by auto
    qed
  qed
  with assms show ?thesis by (auto simp: map_set_def)
qed

lemma addPrinter_existing:
  assumes "findPrinterByAddress a b (w_printers st) = Some e"
  shows "fst (wifi_addPrinter newId t nm a b st) = pid e"
    and "w_printers (snd (wifi_addPrinter newId t nm a b st)) =
           upd_first (\<lambda>p. ip p = a \<and> port p = b) (\<lambda>p. p\<lparr>name := nm, lastUsed := t\<rparr>) (w_printers st)"
  using assms
  by (simp_all add: wifi_addPrinter_def wifi_savePersistedConnections_def wemit_def Let_def)

lemma addPrinter_new:
  assumes "findPrinterByAddress a b (w_printers st) = None"
  shows "fst (wifi_addPrinter newId t nm a b st) = newId"
    and "w_printers (snd (wifi_addPrinter newId t nm a b st)) =
           map_set \<lparr>pid = newId, name = nm, status = ''disconnected'', lastUsed = t, ip = a, port = b\<rparr>
             (w_printers st)"
  using assms
  by (simp_all add: wifi_addPrinter_def wifi_savePersistedConnections_def wemit_def Let_def)

lemma addPrinter_found_after:
  "\<exists>r. findPrinterByAddress a b (w_printers (snd (wifi_addPrinter newId t nm a b st))) = Some r \<and>
       pid r = fst (wifi_addPrinter newId t nm a b st) \<and> name r = nm \<and> lastUsed r = t"
proof (cases "findPrinterByAddress a b (w_printers st)")
  case None
  have "find (\<lambda>p. ip p = a \<and> port p = b)
          (map_set \<lparr>pid = newId, name = nm, status = ''disconnected'', lastUsed = t, ip = a, port = b\<rparr>
             (w_printers st)) =
        Some \<lparr>pid = newId, name = nm, status = ''disconnected'', lastUsed = t, ip = a, port = b\<rparr>"
    using None by (intro find_map_set_new) (simp_all add: findPrinterByAddress_def)
  with addPrinter_new[OF None] show ?thesis
    by (simp add: findPrinterByAddress_def)
next
  case (Some e)
  have "find (\<lambda>p. ip p = a \<and> port p = b)
          (upd_first (\<lambda>p. ip p = a \<and> port p = b) (\<lambda>p. p\<lparr>name := nm, lastUsed := t\<rparr>) (w_printers st)) =
        Some (e\<lparr>name := nm, lastUsed := t\<rparr>)"
    using Some unfolding findPrinterByAddress_def by (rule find_upd_first_pres) simp
  with addPrinter_existing[OF Some] show ?thesis
    by (simp add: findPrinterByAddress_def)
qed

lemma addPrinter_distinct:
  assumes "distinct (map (\<lambda>p. (ip p, port p)) (w_printers st))"
  shows "distinct (map (\<lambda>p. (ip p, port p)) (w_printers (snd (wifi_addPrinter newId t nm a b st))))"
proof (cases "findPrinterByAddress a b (w_printers st)")
  case None
  then have "(a, b) \<notin> (\<lambda>p. (ip p, port p)) ` set (w_printers st)"
    by (auto simp: findPrinterByAddress_def find_None_iff_all)
  with assms show ?thesis
    unfolding addPrinter_new(2)[OF None] by (intro distinct_map_set_new) simp_all
next
  case (Some e)
  with assms show ?thesis
    unfolding addPrinter_existing(2)[OF Some] by (simp add: map_upd_first_same)
qed

lemma map_upd_first_found:
  "find P xs = Some x \<Longrightarrow> g (f x) = g x \<Longrightarrow> map g (upd_first P f xs) = map g xs"
  by (induction xs) (auto split: if_splits)

lemma addPrinter_twice:
  "map (\<lambda>p. (pid p, name p, status p, ip p, port p))
     (w_printers (snd (wifi_addPrinter newId' t' nm a b (snd (wifi_addPrinter newId t nm a b st))))) =
   map (\<lambda>p. (pid p, name p, status p, ip p, port p))
     (w_printers (snd (wifi_addPrinter newId t nm a b st)))"
  "fst (wifi_addPrinter newId' t' nm a b (snd (wifi_addPrinter newId t nm a b st))) =
     fst (wifi_addPrinter newId t nm a b st)"
proof -
  obtain r where r: "findPrinterByAddress a b (w_printers (snd (wifi_addPrinter newId t nm a b st))) = Some r"
    "pid r = fst (wifi_addPrinter newId t nm a b st)" "name r = nm" "lastUsed r = t"
    using addPrinter_found_after[of a b newId t nm st] by blast
  show "map (\<lambda>p. (pid p, name p, status p, ip p, port p))
     (w_printers (snd (wifi_addPrinter newId' t' nm a b (snd (wifi_addPrinter newId t nm a b st))))) =
   map (\<lambda>p. (pid p, name p, status p, ip p, port p))
     (w_printers (snd (wifi_addPrinter newId t nm a b st)))"
    unfolding addPrinter_existing(2)[OF r(1)]
    using r(1) unfolding findPrinterByAddress_def
    by (rule map_upd_first_found) (simp add: r(3))
  show "fst (wifi_addPrinter newId' t' nm a b (snd (wifi_addPrinter newId t nm a b st))) =
     fst (wifi_addPrinter newId t nm a b st)"
    unfolding addPrinter_existing(1)[OF r(1)] by (rule r(2))
qed

text \<open>Claim C6, as stated, fails for the \<^verbatim>\<open>addPrinter\<close> of the copy of the WiFi
  manager that has no look-up by address: adding a printer at the address of an
  existing record leaves two records with that ip and port.\<close>

theorem old_addPrinter_duplicates_counterexample:
  "findPrinterByAddress ''192.168.1.50'' 9100 (w_printers ex_wifi_state) = Some ex_wifi_printer \<and>
   map pid
     (w_printers (snd (wifi_old_addPrinter ''wifi_2'' ''t1'' ''Kitchen'' ''192.168.1.50'' 9100 ex_wifi_state))) =
     [''wifi_1'', ''wifi_2''] \<and>
   map ip
     (w_printers (snd (wifi_old_addPrinter ''wifi_2'' ''t1'' ''Kitchen'' ''192.168.1.50'' 9100 ex_wifi_state))) =
     [''192.168.1.50'', ''192.168.1.50''] \<and>
   map port
     (w_printers (snd (wifi_old_addPrinter ''wifi_2'' ''t1'' ''Kitchen'' ''192.168.1.50'' 9100 ex_wifi_state))) =
     [9100, 9100]"
  by (simp add: wifi_old_addPrinter_def wifi_savePersistedConnections_def wemit_def Let_def
      findPrinterByAddress_def ex_wifi_state_def ex_wifi_printer_def map_set_def)

text \<open>Claim C6, amended. In \<^verbatim>\<open>static/js/wifi-printer-manager.js\<close>, adding a printer
  whose ip and port are those of an existing record returns the id of that record,
  keeps the number of records and every id, address and status, and sets the name and
  lastUsed of that record; a registry without two records at one address stays so
  after any \<^verbatim>\<open>addPrinter\<close>; and adding the same name and address a second time gives
  the same id and the same records as adding it once, up to the lastUsed of the record
  at that address.\<close>

theorem addPrinter_dedup:
  "(\<forall>e. findPrinterByAddress a b (w_printers st) = Some e \<longrightarrow>
      fst (wifi_addPrinter newId t nm a b st) = pid e \<and>
      length (w_printers (snd (wifi_addPrinter newId t nm a b st))) = length (w_printers st) \<and>
      map (\<lambda>p. (pid p, ip p, port p, status p)) (w_printers (snd (wifi_addPrinter newId t nm a b st))) =
        map (\<lambda>p. (pid p, ip p, port p, status p)) (w_printers st) \<and>
      findPrinterByAddress a b (w_printers (snd (wifi_addPrinter newId t nm a b st))) =
        Some (e\<lparr>name := nm, lastUsed := t\<rparr>)) \<and>
   (distinct (map (\<lambda>p. (ip p, port p)) (w_printers st)) \<longrightarrow>
      distinct (map (\<lambda>p. (ip p, port p)) (w_printers (snd (wifi_addPrinter newId t nm a b st))))) \<and>
   map (\<lambda>p. (pid p, name p, status p, ip p, port p))
     (w_printers (snd (wifi_addPrinter newId' t' nm a b (snd (wifi_addPrinter newId t nm a b st))))) =
   map (\<lambda>p. (pid p, name p, status p, ip p, port p))
     (w_printers (snd (wifi_addPrinter newId t nm a b st))) \<and>
   fst (wifi_addPrinter newId' t' nm a b (snd (wifi_addPrinter newId t nm a b st))) =
     fst (wifi_addPrinter newId t nm a b st)"
proof (intro conjI allI impI)
  fix e assume e: "findPrinterByAddress a b (w_printers st) = Some e"
  show "fst (wifi_addPrinter newId t nm a b st) = pid e"
    by (rule addPrinter_existing(1)[OF e])
  show "length (w_printers (snd (wifi_addPrinter newId t nm a b st))) = length (w_printers st)"
    unfolding addPrinter_existing(2)[OF e] by (rule length_upd_first)
  show "map (\<lambda>p. (pid p, ip p, port p, status p)) (w_printers (snd (wifi_addPrinter newId t nm a b st))) =
        map (\<lambda>p. (pid p, ip p, port p, status p)) (w_printers st)"
    unfolding addPrinter_existing(2)[OF e] by (rule map_upd_first_same) simp
  show "findPrinterByAddress a b (w_printers (snd (wifi_addPrinter newId t nm a b st))) =
        Some (e\<lparr>name := nm, lastUsed := t\<rparr>)"
    unfolding addPrinter_existing(2)[OF e] findPrinterByAddress_def
    using e unfolding findPrinterByAddress_def by (rule find_upd_first_pres) simp
qed (simp_all add: addPrinter_distinct addPrinter_twice)

theorem addPrinter_dedup_witness:
  "findPrinterByAddress ''192.168.1.50'' 9100 (w_printers ex_wifi_state) = Some ex_wifi_printer \<and>
   distinct (map (\<lambda>p. (ip p, port p)) (w_printers ex_wifi_state)) \<and>
   fst (wifi_addPrinter ''wifi_2'' ''t1'' ''Bar'' ''192.168.1.50'' 9100 ex_wifi_state) = ''wifi_1'' \<and>
   w_printers (snd (wifi_addPrinter ''wifi_2'' ''t1'' ''Bar'' ''192.168.1.50'' 9100 ex_wifi_state)) =
     [ex_wifi_printer\<lparr>name := ''Bar'', lastUsed := ''t1''\<rparr>]"
  using addPrinter_dedup[of "''192.168.1.50''" 9100 ex_wifi_state "''wifi_2''" "''t1''" "''Bar''" "''wifi_3''" "''t2''"]
  by (simp add: wifi_addPrinter_def wifi_savePersistedConnections_def wemit_def Let_def
      findPrinterByAddress_def ex_wifi_state_def ex_wifi_printer_def)

section \<open>Guards of the print operations\<close>

lemma printToPrinter_guard:
  assumes "map_get i (connectedPrinters st) = None \<or>
           (\<exists>p. map_get i (connectedPrinters st) = Some p \<and> status p \<noteq> ''connected'')"
  shows "printToPrinter env i data st = Some (Inl ''Printer not connected'', st)"
  using assms by (auto simp: printToPrinter_def)

lemma wifi_printToPrinter_guard:
  assumes "map_get i (w_printers wst) = None \<or>
           (\<exists>p. map_get i (w_printers wst) = Some p \<and> status p \<noteq> ''connected'')"
  shows "wifi_printToPrinter wenv i content wst = (Inl ''Printer not connected'', wst)"
  using assms by (auto simp: wifi_printToPrinter_def)

lemma printToPrinter_success:
  assumes "printToPrinter env i data st = Some (Inr ok, st')"
  shows "\<exists>p d s. map_get i (connectedPrinters st) = Some p \<and> status p = ''connected'' \<and>
           device p = Some d \<and> gatt_connected d \<and> server p = Some s"
  using assms
  by (auto simp: printToPrinter_def sendPrintData_def Let_def
      split: option.splits if_splits sum.splits prod.splits)

lemma printToBluetoothPrinter_success:
  assumes "printToBluetoothPrinter send t i data st = (Inr ok, st')"
  shows "\<exists>p s. map_get i (connectedPrinters st) = Some p \<and> status p = ''connected'' \<and>
           server p = Some s \<and> gatt_connected s"
  using assms
  by (auto simp: printToBluetoothPrinter_def sendDataToBluetoothDevice_def
      split: option.splits if_splits sum.splits prod.splits)

lemma wifi_printToPrinter_success:
  assumes "wifi_printToPrinter wenv i content wst = (Inr ok, wst')"
  shows "\<exists>p. map_get i (w_printers wst) = Some p \<and> status p = ''connected''"
  using assms
  by (auto simp: wifi_printToPrinter_def Let_def split: option.splits if_splits)

text \<open>Claim C7, as stated, fails in the Separate manager: for an unknown id
  \<^verbatim>\<open>printToBluetoothPrinter\<close> throws the error "Printer not found", not the error
  "Printer not connected".\<close>

theorem print_unknown_id_counterexample:
  "map_get ''ble_9'' (connectedPrinters ex_state) = None \<and>
   printToBluetoothPrinter ex_send ''t1'' ''ble_9'' [1, 2, 3] ex_state = (Inl ''Printer not found'', ex_state) \<and>
   ''Printer not found'' \<noteq> ''Printer not connected''"
  by (simp add: printToBluetoothPrinter_def map_get_def ex_state_def ex_printer_def)

text \<open>Claim C7, amended. In the Enhanced and the WiFi manager a print to an unknown
  id or to a record whose status is not connected fails with "Printer not connected"
  and leaves the whole state, the log of writes included, as it was. In the Separate
  manager an unknown id fails with "Printer not found" and a status that is not
  connected with "Printer not connected", the state unchanged as well. A print
  succeeds only for a record that exists and is connected, and, in the Bluetooth
  managers, holds a live handle: a device whose GATT link is connected and a server in
  the Enhanced manager, a connected server in the Separate one.\<close>

theorem print_guards:
  "(map_get i (connectedPrinters st) = None \<or>
      (\<exists>p. map_get i (connectedPrinters st) = Some p \<and> status p \<noteq> ''connected'') \<longrightarrow>
      printToPrinter env i data st = Some (Inl ''Printer not connected'', st)) \<and>
   (map_get i (w_printers wst) = None \<or>
      (\<exists>p. map_get i (w_printers wst) = Some p \<and> status p \<noteq> ''connected'') \<longrightarrow>
      wifi_printToPrinter wenv i content wst = (Inl ''Printer not connected'', wst)) \<and>
   (map_get i (connectedPrinters st) = None \<longrightarrow>
      printToBluetoothPrinter send t i data st = (Inl ''Printer not found'', st)) \<and>
   ((\<exists>p. map_get i (connectedPrinters st) = Some p \<and> status p \<noteq> ''connected'') \<longrightarrow>
      printToBluetoothPrinter send t i data st = (Inl ''Printer not connected'', st)) \<and>
   (\<forall>ok st'. printToPrinter env i data st = Some (Inr ok, st') \<longrightarrow>
      (\<exists>p d s. map_get i (connectedPrinters st) = Some p \<and> status p = ''connected'' \<and>
           device p = Some d \<and> gatt_connected d \<and> server p = Some s)) \<and>
   (\<forall>ok st'. printToBluetoothPrinter send t i data st = (Inr ok, st') \<longrightarrow>
      (\<exists>p s. map_get i (connectedPrinters st) = Some p \<and> status p = ''connected'' \<and>
           server p = Some s \<and> gatt_connected s)) \<and>
   (\<forall>ok wst'. wifi_printToPrinter wenv i content wst = (Inr ok, wst') \<longrightarrow>
      (\<exists>p. map_get i (w_printers wst) = Some p \<and> status p = ''connected''))"
proof (intro conjI allI impI)
  assume "map_get i (connectedPrinters st) = None"
  then show "printToBluetoothPrinter send t i data st = (Inl ''Printer not found'', st)"
    by (simp add: printToBluetoothPrinter_def)
next
  assume "\<exists>p. map_get i (connectedPrinters st) = Some p \<and> status p \<noteq> ''connected''"
  then show "printToBluetoothPrinter send t i data st = (Inl ''Printer not connected'', st)"
    by (auto simp: printToBluetoothPrinter_def)
qed (erule printToPrinter_guard wifi_printToPrinter_guard printToPrinter_success
      printToBluetoothPrinter_success wifi_printToPrinter_success)+


theorem print_guards_witness:
  "map_get ''ble_9'' (connectedPrinters ex_state) = None \<and>
   printToPrinter ex_env ''ble_9'' [1, 2, 3] ex_state = Some (Inl ''Printer not connected'', ex_state) \<and>
   printToBluetoothPrinter ex_send ''t1'' ''ble_9'' [1, 2, 3] ex_state = (Inl ''Printer not found'', ex_state) \<and>
   map_get ''ble_9'' (w_printers ex_wifi_state) = None \<and>
   wifi_printToPrinter ex_wifi_env ''ble_9'' ''hello'' ex_wifi_state =
     (Inl ''Printer not connected'', ex_wifi_state) \<and>
   map_option status (map_get ''ble_1'' (connectedPrinters ex_state_tab)) = Some ''disconnected'' \<and>
   printToPrinter ex_env ''ble_1'' [1, 2, 3] ex_state_tab = Some (Inl ''Printer not connected'', ex_state_tab) \<and>
   printToBluetoothPrinter ex_send ''t1'' ''ble_1'' [1, 2, 3] ex_state_tab =
     (Inl ''Printer not connected'', ex_state_tab) \<and>
   map_option fst (printToPrinter ex_env ''ble_1'' [1, 2, 3] ex_state) = Some (Inr True) \<and>
   fst (printToBluetoothPrinter ex_send ''t1'' ''ble_1'' [1, 2, 3] ex_state) = Inr True \<and>
   fst (wifi_printToPrinter ex_wifi_env ''wifi_1'' ''hello'' ex_wifi_state) = Inr True \<and>
   map_get ''ble_1'' (connectedPrinters ex_state) = Some ex_printer \<and>
   map_get ''wifi_1'' (w_printers ex_wifi_state) = Some ex_wifi_printer"
  using print_guards[where i="''ble_9''" and st=ex_state and wst=ex_wifi_state and env=ex_env
      and data="[1, 2, 3]" and wenv=ex_wifi_env and content="''hello''" and send=ex_send and t="''t1''"]
    print_guards[where i="''ble_1''" and st=ex_state_tab and wst=ex_wifi_state and env=ex_env
      and data="[1, 2, 3]" and wenv=ex_wifi_env and content="''hello''" and send=ex_send and t="''t1''"]
    print_guards[where i="''ble_1''" and st=ex_state and wst=ex_wifi_state and env=ex_env
      and data="[1, 2, 3]" and wenv=ex_wifi_env and content="''hello''" and send=ex_send and t="''t1''"]
    print_guards[where i="''wifi_1''" and st=ex_state and wst=ex_wifi_state and env=ex_env
      and data="[1, 2, 3]" and wenv=ex_wifi_env and content="''hello''" and send=ex_send and t="''t1''"]
  by (simp add: printToPrinter_def printToBluetoothPrinter_def wifi_printToPrinter_def
      sendPrintData_def sendDataToBluetoothDevice_def sendChunks.simps find_characteristic_def
      maxChunkSize_def chunkDelay_def wifi_print_error_def savePersistedConnections_def emit_def
      wemit_def Let_def map_get_def ex_state_tab_def ex_state_def ex_printer_def ex_device_def
      ex_wifi_state_def ex_wifi_printer_def ex_env_def ex_wifi_env_def ex_send_def
      bt_loaded_def to_persisted_def)

section \<open>Persistence on a link drop\<close>














section \<open>The device picker in reconnection\<close>

lemma connect_and_record_picker:
  "RequestDevice \<in> set (log (snd (connect_and_record env i p dev st))) \<longleftrightarrow>
   RequestDevice \<in> set (log st)"
  by (auto simp: connect_and_record_def Let_def savePersistedConnections_def emit_def
      notifyConnectionStatus_def broadcastConnectionState_def setupDeviceEventListeners_def
      split: option.splits)

lemma connect_and_record_getDevices:
  "GetDevices \<in> set (log (snd (connect_and_record env i p dev st))) \<longleftrightarrow>
   GetDevices \<in> set (log st)"
  by (auto simp: connect_and_record_def Let_def savePersistedConnections_def emit_def
      notifyConnectionStatus_def broadcastConnectionState_def setupDeviceEventListeners_def
      split: option.splits)

lemma glob_connect_picker:
  "RequestDevice \<in> set (log (glob_connect env i p d st)) \<longleftrightarrow> RequestDevice \<in> set (log st)"
  by (auto simp: glob_connect_def Let_def savePersistedConnections_def emit_def
      notifyConnectionStatus_def setupDeviceEventListeners_def)

lemma attemptReconnection_picker:
  assumes "map_get i (connectedPrinters st) = Some p" and "RequestDevice \<notin> set (log st)"
  shows "RequestDevice \<in> set (log (snd (attemptReconnection env i showPicker st))) \<longleftrightarrow>
         (showPicker \<or>
          \<not> (supportsGetDevices st \<and>
             (\<exists>ds d. getDevices_result env = Some ds \<and> find (matches p) ds = Some d)))"
  using assms
  by (auto simp: attemptReconnection_def silent_acquire_def connect_and_record_picker Let_def
      savePersistedConnections_def emit_def notifyConnectionStatus_def broadcastConnectionState_def
      setupDeviceEventListeners_def split: option.splits sum.splits)

lemma attemptReconnection_getDevices:
  assumes "map_get i (connectedPrinters st) = Some p" and "GetDevices \<notin> set (log st)"
  shows "GetDevices \<in> set (log (snd (attemptReconnection env i showPicker st))) \<longleftrightarrow>
         (supportsGetDevices st \<and> \<not> showPicker)"
  using assms
  by (auto simp: attemptReconnection_def silent_acquire_def connect_and_record_getDevices Let_def
      savePersistedConnections_def emit_def notifyConnectionStatus_def broadcastConnectionState_def
      setupDeviceEventListeners_def split: option.splits sum.splits)

lemma glob_attemptReconnection_picker:
  assumes "map_get i (connectedPrinters st) = Some p" and "RequestDevice \<notin> set (log st)"
  shows "RequestDevice \<in> set (log (glob_attemptReconnection env i st)) \<longleftrightarrow>
         \<not> (supportsGetDevices st \<and>
             (\<exists>ds d. getDevices_result env = Some ds \<and> find (matches p) ds = Some d))"
  using assms
  by (auto simp: glob_attemptReconnection_def glob_connect_picker Let_def emit_def
      split: option.splits request_outcome.splits)


lemma connect_and_record_extends:
  "\<exists>rest. log (snd (connect_and_record env i p dev st)) = log st @ rest"
  by (auto simp: connect_and_record_def Let_def savePersistedConnections_def emit_def
      notifyConnectionStatus_def broadcastConnectionState_def setupDeviceEventListeners_def
      split: option.splits)

lemma attemptReconnection_silent_first:
  assumes "map_get i (connectedPrinters st) = Some p" and "supportsGetDevices st" and "\<not> showPicker"
  shows "\<exists>rest. log (snd (attemptReconnection env i showPicker st)) = log st @ GetDevices # rest"
proof -
  have ext: "\<exists>rest. log (snd (connect_and_record env i p dev (emit RequestDevice (emit GetDevices st)))) =
                  log st @ GetDevices # rest" for dev
    using connect_and_record_extends[of env i p dev "emit RequestDevice (emit GetDevices st)"]
    by (auto simp: emit_def)
  have ext2: "\<exists>rest. log (snd (connect_and_record env i p dev (emit GetDevices st))) =
                  log st @ GetDevices # rest" for dev
    using connect_and_record_extends[of env i p dev "emit GetDevices st"]
    by (auto simp: emit_def)
  show ?thesis
    using assms ext ext2
    by (auto simp: attemptReconnection_def silent_acquire_def Let_def
      savePersistedConnections_def emit_def notifyConnectionStatus_def broadcastConnectionState_def
      setupDeviceEventListeners_def split: option.splits sum.splits)
qed

text \<open>Claim C4, as stated, fails: with \<^verbatim>\<open>showPicker\<close> false and no paired device the
  Enhanced manager opens the picker right after the look-up; with \<^verbatim>\<open>showPicker\<close> true
  it does not look the paired devices up at all; the Global manager opens the picker
  whenever the look-up finds nothing.\<close>

theorem picker_without_prompt_counterexample:
  "map_get ''ble_1'' (connectedPrinters ex_state_tab) = Some (bt_loaded (to_persisted ex_printer)) \<and>
   log ex_state_tab = [] \<and>
   take 2 (log (snd (attemptReconnection ex_env_unpaired ''ble_1'' False ex_state_tab))) =
     [GetDevices, RequestDevice] \<and>
   GetDevices \<notin> set (log (snd (attemptReconnection ex_env ''ble_1'' True ex_state_tab))) \<and>
   take 2 (log (glob_attemptReconnection ex_env_unpaired ''ble_1'' ex_state_tab)) =
     [GetDevices, RequestDevice]"
  by (simp add: attemptReconnection_def glob_attemptReconnection_def silent_acquire_def
      connect_and_record_def glob_connect_def requestDeviceWithTimeout_def matches_def
      reconnected_upd_def Let_def savePersistedConnections_def emit_def notifyConnectionStatus_def
      broadcastConnectionState_def setupDeviceEventListeners_def map_get_def
      ex_env_unpaired_def ex_env_def ex_state_tab_def ex_state_def ex_printer_def ex_device_def
      bt_loaded_def to_persisted_def)

text \<open>Claim C4, amended. In \<^verbatim>\<open>attemptReconnection\<close> of the Enhanced manager the
  paired devices are looked up exactly when \<^verbatim>\<open>getDevices\<close> is supported and
  \<^verbatim>\<open>showPicker\<close> is false, and then before anything else; the picker is opened exactly
  when \<^verbatim>\<open>showPicker\<close> is true or the look-up gave no matching device. In the Global
  manager the picker is opened exactly when the look-up gave no matching device.\<close>

theorem picker_rule:
  assumes "map_get i (connectedPrinters st) = Some p"
    and "RequestDevice \<notin> set (log st)" and "GetDevices \<notin> set (log st)"
  shows "(GetDevices \<in> set (log (snd (attemptReconnection env i showPicker st))) \<longleftrightarrow>
            supportsGetDevices st \<and> \<not> showPicker) \<and>
         (supportsGetDevices st \<and> \<not> showPicker \<longrightarrow>
            (\<exists>rest. log (snd (attemptReconnection env i showPicker st)) = log st @ GetDevices # rest)) \<and>
         (RequestDevice \<in> set (log (snd (attemptReconnection env i showPicker st))) \<longleftrightarrow>
            showPicker \<or>
            \<not> (supportsGetDevices st \<and>
               (\<exists>ds d. getDevices_result env = Some ds \<and> find (matches p) ds = Some d))) \<and>
         (RequestDevice \<in> set (log (glob_attemptReconnection env i st)) \<longleftrightarrow>
            \<not> (supportsGetDevices st \<and>
               (\<exists>ds d. getDevices_result env = Some ds \<and> find (matches p) ds = Some d)))"
  using attemptReconnection_getDevices[OF assms(1,3)] attemptReconnection_picker[OF assms(1,2)]
    glob_attemptReconnection_picker[OF assms(1,2)] attemptReconnection_silent_first[OF assms(1)]
  by blast

theorem picker_rule_witness:
  "map_get ''ble_1'' (connectedPrinters ex_state_tab) = Some (bt_loaded (to_persisted ex_printer)) \<and>
   RequestDevice \<notin> set (log ex_state_tab) \<and> GetDevices \<notin> set (log ex_state_tab) \<and>
   supportsGetDevices ex_state_tab \<and>
   find (matches (bt_loaded (to_persisted ex_printer))) [ex_device\<lparr>gatt_connected := False\<rparr>] =
     Some (ex_device\<lparr>gatt_connected := False\<rparr>) \<and>
   GetDevices \<in> set (log (snd (attemptReconnection ex_env_paired ''ble_1'' False ex_state_tab))) \<and>
   RequestDevice \<notin> set (log (snd (attemptReconnection ex_env_paired ''ble_1'' False ex_state_tab))) \<and>
   RequestDevice \<notin> set (log (glob_attemptReconnection ex_env_paired ''ble_1'' ex_state_tab)) \<and>
   RequestDevice \<in> set (log (snd (attemptReconnection ex_env_unpaired ''ble_1'' False ex_state_tab)))"
  using picker_rule[of "''ble_1''" ex_state_tab "bt_loaded (to_persisted ex_printer)" ex_env_paired False]
    picker_rule[of "''ble_1''" ex_state_tab "bt_loaded (to_persisted ex_printer)" ex_env_unpaired False]
  by (simp add: matches_def map_get_def ex_env_paired_def ex_env_unpaired_def ex_env_def
      ex_state_tab_def ex_state_def ex_printer_def ex_device_def bt_loaded_def to_persisted_def)

section \<open>Chunked writes\<close>

lemma chunk_index_less:
  "0 < C \<Longrightarrow> j < chunk_count L C \<longleftrightarrow> j * C < L"
proof -
  assume C: "0 < C"
  have "j < (L + C - 1) div C \<longleftrightarrow> Suc j \<le> (L + C - 1) div C" by auto
  also have "\<dots> \<longleftrightarrow> Suc j * C \<le> L + C - 1"
    using C by (simp only: less_eq_div_iff_mult_less_eq)
  also have "\<dots> \<longleftrightarrow> j * C < L" using C by auto
  finally show ?thesis by (simp add: chunk_count_def)
qed

lemma sep_by_Cons: "sep_by s (x # ys) = x # (if ys = [] then [] else s # sep_by s ys)"
  by (cases ys) simp_all

lemma sendChunks_from:
  assumes C: "0 < C" and wr: "\<forall>i. wr i"
  shows "sendChunks C dly wr data (j * C) lg =
           Some (True, lg @ sep_by (Delay dly)
                   (map (\<lambda>k. WriteValue (k * C) (take C (drop (k * C) data)))
                      [j..<chunk_count (length data) C]))"
proof (induction "chunk_count (length data) C - j" arbitrary: j lg)
  case 0
  then have "\<not> j < chunk_count (length data) C" by simp
  then have "\<not> j * C < length data" using C by (simp add: chunk_index_less)
  with 0 show ?case by (subst sendChunks.simps) simp
next
  case (Suc d)
  then have j: "j < chunk_count (length data) C" by simp
  then have lt: "j * C < length data" using C by (simp add: chunk_index_less)
  have d: "d = chunk_count (length data) C - Suc j" using Suc.hyps(2) by simp
  have nxt: "(j * C + C < length data) = (Suc j < chunk_count (length data) C)"
    using chunk_index_less[OF C, of "Suc j" "length data"] by (simp add: add.commute)
  have up: "[j..<chunk_count (length data) C] = j # [Suc j..<chunk_count (length data) C]"
    using j by (simp add: upt_conv_Cons)
  have step: "sendChunks C dly wr data (j * C) lg =
          sendChunks C dly wr data (Suc j * C)
            (lg @ WriteValue (j * C) (take C (drop (j * C) data)) #
                (if Suc j < chunk_count (length data) C then [Delay dly] else []))"
    using lt wr nxt by (subst sendChunks.simps) (simp add: add.commute)
  have rest: "sep_by (Delay dly)
                (map (\<lambda>k. WriteValue (k * C) (take C (drop (k * C) data)))
                   [j..<chunk_count (length data) C]) =
              WriteValue (j * C) (take C (drop (j * C) data)) #
                (if Suc j < chunk_count (length data) C then [Delay dly] else []) @
              sep_by (Delay dly)
                (map (\<lambda>k. WriteValue (k * C) (take C (drop (k * C) data)))
                   [Suc j..<chunk_count (length data) C])"
    by (simp add: up sep_by_Cons)
  show ?case
    unfolding step rest using Suc.hyps(1)[OF d] by simp
qed

lemma sendDataInChunks_loop_from:
  assumes C: "0 < C" and wr: "\<forall>i. wr i"
  shows "sendDataInChunks_loop C wr u data (j * C) lg =
           Some (True, lg @ concat
                   (map (\<lambda>k. [write_effect u (k * C) (take C (drop (k * C) data)), Delay 50])
                      [j..<chunk_count (length data) C]))"
proof (induction "chunk_count (length data) C - j" arbitrary: j lg)
  case 0
  then have "\<not> j < chunk_count (length data) C" by simp
  then have "\<not> j * C < length data" using C by (simp add: chunk_index_less)
  with 0 show ?case by (subst sendDataInChunks_loop.simps) simp
next
  case (Suc d)
  then have j: "j < chunk_count (length data) C" by simp
  then have lt: "j * C < length data" using C by (simp add: chunk_index_less)
  have d: "d = chunk_count (length data) C - Suc j" using Suc.hyps(2) by simp
  have up: "[j..<chunk_count (length data) C] = j # [Suc j..<chunk_count (length data) C]"
    using j by (simp add: upt_conv_Cons)
  have step: "sendDataInChunks_loop C wr u data (j * C) lg =
          sendDataInChunks_loop C wr u data (Suc j * C)
            (lg @ [write_effect u (j * C) (take C (drop (j * C) data)), Delay 50])"
    using lt wr by (subst sendDataInChunks_loop.simps) (simp add: add.commute)
  show ?case
    unfolding step up using Suc.hyps(1)[OF d] by simp
qed


lemma chunk_count_ceiling:
  assumes "0 < C"
  shows "L \<le> chunk_count L C * C" and "0 < L \<Longrightarrow> (chunk_count L C - 1) * C < L"
proof -
  show "L \<le> chunk_count L C * C"
    using chunk_index_less[OF assms, of "chunk_count L C" L] by simp
  assume L: "0 < L"
  then have "0 < chunk_count L C" using assms chunk_index_less[OF assms, of 0 L] by simp
  then have "chunk_count L C - 1 < chunk_count L C" by simp
  then show "(chunk_count L C - 1) * C < L" using assms by (simp only: chunk_index_less)
qed

lemma writes_of_sep_by:
  "writes_of (sep_by (Delay dly) (map (\<lambda>k. WriteValue (f k) (g k)) ks)) = map (\<lambda>k. (f k, g k)) ks"
  by (induction ks rule: induct_list012) simp_all

lemma offsets_increasing: "0 < C \<Longrightarrow> sorted_wrt (<) (map (\<lambda>k. k * C) [0..<n])"
  by (simp add: sorted_wrt_iff_nth_less)

text \<open>Claim C2, as stated, fails for \<^verbatim>\<open>sendDataInChunks\<close> of the Separate manager:
  a payload of 25 bytes goes out in two chunks of 20 and 5 bytes and a delay follows
  the last chunk as well.\<close>

theorem trailing_delay_counterexample:
  "sendDataInChunks ex_wr (replicate 25 0) True [] =
     Some (True, [WriteValueWithoutResponse 0 (replicate 20 0), Delay 50,
                  WriteValueWithoutResponse 20 (replicate 5 0), Delay 50])"
  by (simp add: sendDataInChunks_def sendDataInChunks_loop.simps write_effect_def ex_wr_def)

text \<open>Claim C2, amended. With a chunk size \<open>C > 0\<close> and every write resolving, the
  chunk loop of \<^verbatim>\<open>sendPrintData\<close> returns after writing chunk \<open>k\<close> at offset \<open>k * C\<close> for
  \<open>k = 0, ..., n - 1\<close>, where \<open>n\<close> is the payload length over \<open>C\<close> rounded up, with one
  delay between consecutive writes and none after the last; the offsets increase
  strictly and no chunk is longer than \<open>C\<close>. \<^verbatim>\<open>sendDataInChunks\<close> of the Separate manager
  writes the chunks of 20 bytes in the same order, each write followed by a delay of
  50 ms.\<close>

theorem chunked_write:
  assumes "0 < C" and "\<forall>i. wr i"
  shows "sendChunks C dly wr data 0 lg =
           Some (True, lg @ sep_by (Delay dly)
                   (map (\<lambda>k. WriteValue (k * C) (take C (drop (k * C) data)))
                      [0..<chunk_count (length data) C])) \<and>
         writes_of (sep_by (Delay dly)
                   (map (\<lambda>k. WriteValue (k * C) (take C (drop (k * C) data)))
                      [0..<chunk_count (length data) C])) =
           map (\<lambda>k. (k * C, take C (drop (k * C) data))) [0..<chunk_count (length data) C] \<and>
         length data \<le> chunk_count (length data) C * C \<and>
         (0 < length data \<longrightarrow> (chunk_count (length data) C - 1) * C < length data) \<and>
         sorted_wrt (<) (map (\<lambda>k. k * C) [0..<chunk_count (length data) C]) \<and>
         (\<forall>k. length (take C (drop (k * C) data)) \<le> C) \<and>
         sendDataInChunks wr data u lg =
           Some (True, lg @ concat
                   (map (\<lambda>k. [write_effect u (k * 20) (take 20 (drop (k * 20) data)), Delay 50])
                      [0..<chunk_count (length data) 20]))"
proof -
  have twenty: "0 < (20::nat)" by simp
  show ?thesis
    using sendChunks_from[OF assms, of dly data 0 lg]
      sendDataInChunks_loop_from[OF twenty assms(2), of u data 0 lg]
      chunk_count_ceiling[OF assms(1), of "length data"] offsets_increasing[OF assms(1)]
    by (simp add: writes_of_sep_by sendDataInChunks_def)
qed

theorem chunked_write_witness:
  "0 < (244::nat) \<and> (\<forall>i. ex_wr i) \<and>
   sendChunks 244 5 ex_wr (replicate 500 0) 0 [] =
     Some (True, [WriteValue 0 (replicate 244 0), Delay 5,
                  WriteValue 244 (replicate 244 0), Delay 5,
                  WriteValue 488 (replicate 12 0)]) \<and>
   chunk_count 500 244 = 3"
proof -
  have three: "[0..<3] = [0, 1, 2::nat]" by code_simp
  show ?thesis
    using chunked_write[of 244 ex_wr 5 "replicate 500 0" "[]" True]
    by (simp add: chunk_count_def ex_wr_def three)
qed

section \<open>Fan-out of a print\<close>

lemma sendChunks_returns:
  assumes "0 < C"
  shows "\<exists>b. \<forall>lg. \<exists>lg'. sendChunks C dly wr data i lg = Some (b, lg')"
proof (induction "length data - i" arbitrary: i rule: less_induct)
  case less
  show ?case
  proof (cases "i < length data")
    case False
    then have "\<forall>lg. \<exists>lg'. sendChunks C dly wr data i lg = Some (True, lg')"
      by (subst sendChunks.simps) simp
    then show ?thesis by blast
  next
    case True
    show ?thesis
    proof (cases "wr i")
      case False
      with True have "\<forall>lg. \<exists>lg'. sendChunks C dly wr data i lg = Some (False, lg')"
        by (subst sendChunks.simps) simp
      then show ?thesis by blast
    next
      case wr: True
      have "length data - (i + C) < length data - i" using True assms by simp
      from less[OF this] obtain b where
        b: "\<forall>lg. \<exists>lg'. sendChunks C dly wr data (i + C) lg = Some (b, lg')" by blast
      have "\<forall>lg. \<exists>lg'. sendChunks C dly wr data i lg = Some (b, lg')"
      proof
        fix lg
        show "\<exists>lg'. sendChunks C dly wr data i lg = Some (b, lg')"
          using True wr b by (subst sendChunks.simps) simp
      qed
      then show ?thesis by blast
    qed
  qed
qed

lemma sendPrintData_returns:
  "\<exists>r. \<forall>q lg. device q = device p \<and> server q = server p \<and> pid q = pid p \<longrightarrow>
        (\<exists>lg'. sendPrintData env q data lg = Some (r, lg'))"
proof -
  have "0 < maxChunkSize" by (simp add: maxChunkSize_def)
  from sendChunks_returns[OF this, of chunkDelay "write_ok env (pid p)" data 0]
  obtain b where b: "\<forall>lg. \<exists>lg'. sendChunks maxChunkSize chunkDelay (write_ok env (pid p)) data 0 lg = Some (b, lg')"
    by blast
  define r :: "string + bool" where "r =
     (case device p of
        None \<Rightarrow> Inl ''TypeError''
      | Some d \<Rightarrow>
          if \<not> gatt_connected d then Inl ''Device not connected''
          else
            (case server p of
               None \<Rightarrow> Inl ''TypeError''
             | Some s \<Rightarrow>
                 if \<not> find_characteristic env (pid p)
                 then Inl ''No writable characteristic found''
                 else if b then Inr True else Inl ''GATT operation failed''))"
  have "\<exists>lg'. sendPrintData env q data lg = Some (r, lg')"
    if "device q = device p \<and> server q = server p \<and> pid q = pid p" for q lg
  proof -
    from b obtain lg' where
      "sendChunks maxChunkSize chunkDelay (write_ok env (pid p)) data 0 lg = Some (b, lg')" by blast
    with that show ?thesis
      by (auto simp: sendPrintData_def r_def split: option.splits)
  qed
  then show ?thesis by blast
qed


lemma map_get_handles:
  "map handles ps = map handles qs \<Longrightarrow>
   map_option handles (map_get i ps) = map_option handles (map_get i qs)"
proof (induction ps arbitrary: qs)
  case Nil
  then show ?case by (simp add: map_get_def)
next
  case (Cons p ps)
  then obtain q qs' where qs: "qs = q # qs'" by (cases qs) auto
  with Cons.prems have h: "handles p = handles q" and t: "map handles ps = map handles qs'" by auto
  from Cons.IH[OF t] h show ?case
    by (auto simp: qs map_get_def handles_def)
qed

lemma printToPrinter_returns:
  "\<exists>r. \<forall>st'. map handles (connectedPrinters st') = map handles (connectedPrinters st) \<longrightarrow>
        (\<exists>st''. printToPrinter env i data st' = Some (r, st'') \<and>
                map handles (connectedPrinters st'') = map handles (connectedPrinters st))"
proof (cases "map_get i (connectedPrinters st)")
  case None
  have "\<exists>st''. printToPrinter env i data st' = Some (Inl ''Printer not connected'', st'') \<and>
                map handles (connectedPrinters st'') = map handles (connectedPrinters st)"
    if eq: "map handles (connectedPrinters st') = map handles (connectedPrinters st)" for st'
  proof -
    from map_get_handles[OF eq, of i] None have "map_get i (connectedPrinters st') = None" by simp
    with eq show ?thesis by (simp add: printToPrinter_def)
  qed
  then show ?thesis by blast
next
  case (Some p)
  show ?thesis
  proof (cases "status p = ''connected''")
    case False
    have "\<exists>st''. printToPrinter env i data st' = Some (Inl ''Printer not connected'', st'') \<and>
                map handles (connectedPrinters st'') = map handles (connectedPrinters st)"
      if eq: "map handles (connectedPrinters st') = map handles (connectedPrinters st)" for st'
    proof -
      from map_get_handles[OF eq, of i] Some obtain q where
        "map_get i (connectedPrinters st') = Some q" "handles q = handles p" by auto
      with eq False show ?thesis by (simp add: printToPrinter_def handles_def)
    qed
    then show ?thesis by blast
  next
    case True
    from sendPrintData_returns[of p env data] obtain r where
      r: "\<And>q lg. device q = device p \<and> server q = server p \<and> pid q = pid p \<Longrightarrow>
            \<exists>lg'. sendPrintData env q data lg = Some (r, lg')" by blast
    have "\<exists>st''. printToPrinter env i data st' = Some (r, st'') \<and>
                map handles (connectedPrinters st'') = map handles (connectedPrinters st)"
      if eq: "map handles (connectedPrinters st') = map handles (connectedPrinters st)" for st'
    proof -
      from map_get_handles[OF eq, of i] Some obtain q where
        q: "map_get i (connectedPrinters st') = Some q" "handles q = handles p" by auto
      then have same: "device q = device p \<and> server q = server p \<and> pid q = pid p"
        and sq: "status q = ''connected''" using True by (simp_all add: handles_def)
      from r[OF same, of "log st'"] obtain lg' where
        lg': "sendPrintData env q data (log st') = Some (r, lg')" by blast
      have keep: "map handles (upd_first (\<lambda>p. pid p = i) (\<lambda>p. p\<lparr>lastUsed := now env\<rparr>)
                     (connectedPrinters st')) = map handles (connectedPrinters st')"
        by (rule map_upd_first_same) (simp add: handles_def)
      show ?thesis
        using q(1) sq lg' eq keep
        by (cases r) (auto simp: printToPrinter_def Let_def savePersistedConnections_def emit_def)
    qed
    then show ?thesis by blast
  qed
qed

lemma print_each_results:
  assumes "map handles (connectedPrinters st) = map handles (connectedPrinters st0)"
  shows "\<exists>rs st'. print_each env ps data st = Some (rs, st') \<and>
           map Some rs = map (print_alone env data st0) ps"
  using assms
proof (induction ps arbitrary: st)
  case Nil
  then show ?case by simp
next
  case (Cons p ps)
  from printToPrinter_returns[of st0 env "pid p" data] obtain r where
    r: "\<And>st'. map handles (connectedPrinters st') = map handles (connectedPrinters st0) \<Longrightarrow>
          \<exists>st''. printToPrinter env (pid p) data st' = Some (r, st'') \<and>
                map handles (connectedPrinters st'') = map handles (connectedPrinters st0)"
    by blast
  from r[OF Cons.prems] obtain st1 where
    st1: "printToPrinter env (pid p) data st = Some (r, st1)"
      "map handles (connectedPrinters st1) = map handles (connectedPrinters st0)" by blast
  from r[of st0] obtain st0' where st0': "printToPrinter env (pid p) data st0 = Some (r, st0')"
    by auto
  from Cons.IH[OF st1(2)] obtain rs st' where
    rs: "print_each env ps data st1 = Some (rs, st')"
      "map Some rs = map (print_alone env data st0) ps" by blast
  show ?case
    using st1(1) st0' rs by (simp add: print_alone_def)
qed

lemma map_get_upd_first_other:
  "i \<noteq> j \<Longrightarrow> (\<And>p. pid (f p) = pid p) \<Longrightarrow>
   map_get i (upd_first (\<lambda>q. pid q = j) f ps) = map_get i ps"
  by (induction ps) (auto simp: map_get_def)

lemma wifi_printToPrinter_registry:
  "w_printers (snd (wifi_printToPrinter env i content st)) = w_printers st"
  by (auto simp: wifi_printToPrinter_def Let_def wemit_def split: option.splits)

lemma wifi_printToPrinter_fst:
  "map_get i (w_printers st) = map_get i (w_printers st0) \<Longrightarrow>
   fst (wifi_printToPrinter env i content st) = fst (wifi_printToPrinter env i content st0)"
  by (auto simp: wifi_printToPrinter_def Let_def split: option.splits)

lemma wifi_print_each_results:
  assumes "distinct (map pid ps)" and "\<forall>p\<in>set ps. status p = ''connected''"
    and "\<forall>p\<in>set ps. map_get (pid p) (w_printers st) = map_get (pid p) (w_printers st0)"
  shows "fst (wifi_print_each env ps content st) = map (wifi_print_alone env content st0) ps"
  using assms
proof (induction ps arbitrary: st)
  case Nil
  then show ?case by simp
next
  case (Cons p ps)
  have here: "fst (wifi_printToPrinter env (pid p) content st) =
              fst (wifi_printToPrinter env (pid p) content st0)"
    using Cons.prems(3) by (intro wifi_printToPrinter_fst) simp
  have d: "distinct (map pid ps)" and c: "\<forall>p\<in>set ps. status p = ''connected''"
    using Cons.prems by simp_all
  have others: "\<forall>q\<in>set ps. pid q \<noteq> pid p" using Cons.prems(1)
    by (metis distinct.simps(2) image_eqI list.simps(9) set_map)
  obtain r st1 where run: "wifi_printToPrinter env (pid p) content st = (r, st1)"
    by (cases "wifi_printToPrinter env (pid p) content st")
  have reg: "w_printers st1 = w_printers st"
    using wifi_printToPrinter_registry[of env "pid p" content st] run by simp
  have r: "r = fst (wifi_printToPrinter env (pid p) content st0)" using here run by simp
  show ?case
  proof (cases r)
    case (Inr ok)
    have "\<forall>q\<in>set ps. map_get (pid q) (w_printers st1) = map_get (pid q) (w_printers st0)"
      using Cons.prems(3) reg by simp
    from Cons.IH[OF d c this] show ?thesis
      using Cons.prems(2) run Inr r by (auto simp: wifi_print_alone_def split: prod.splits)
  next
    case (Inl msg)
    define st2 where "st2 =
       (if str_includes msg ''Connection refused'' \<or> str_includes msg ''timeout''
        then wifi_savePersistedConnections
               (st1\<lparr>w_printers :=
                     upd_first (\<lambda>q. pid q = pid p) (\<lambda>q. q\<lparr>status := ''disconnected''\<rparr>)
                       (w_printers st1)\<rparr>)
        else st1)"
    have "\<forall>q\<in>set ps. map_get (pid q) (w_printers st2) = map_get (pid q) (w_printers st0)"
      using Cons.prems(3) reg others
      by (auto simp: st2_def wifi_savePersistedConnections_def wemit_def Let_def
          map_get_upd_first_other)
    from Cons.IH[OF d c this] show ?thesis
      using Cons.prems(2) run Inl r
      by (auto simp: wifi_print_alone_def st2_def Let_def split: prod.splits)
  qed
qed


lemma printToAllPrinters_results:
  assumes "getConnectedPrinters st \<noteq> []"
  shows "\<exists>rs st'. printToAllPrinters env data st = Some (Inr rs, st') \<and>
           map Some rs = map (print_alone env data st) (getConnectedPrinters st)"
proof -
  from print_each_results[of st st env "getConnectedPrinters st" data] obtain rs st' where
    "print_each env (getConnectedPrinters st) data st = Some (rs, st')"
    "map Some rs = map (print_alone env data st) (getConnectedPrinters st)" by auto
  with assms show ?thesis by (simp add: printToAllPrinters_def)
qed

lemma printToAllPrinters_rejects:
  assumes "printToAllPrinters env data st = Some (Inl e, st')"
  shows "getConnectedPrinters st = []"
  using assms
  by (auto simp: printToAllPrinters_def Let_def split: if_splits option.splits)

lemma wifi_printToAllPrinters_results:
  assumes "wifi_getConnectedPrinters wst \<noteq> []" and "distinct (map pid (w_printers wst))"
  shows "fst (wifi_printToAllPrinters wenv content wst) =
           Inr (map (wifi_print_alone wenv content wst) (wifi_getConnectedPrinters wst))"
proof -
  have d: "distinct (map pid (wifi_getConnectedPrinters wst))"
    using assms(2) by (simp add: wifi_getConnectedPrinters_def distinct_map_filter)
  have c: "\<forall>p\<in>set (wifi_getConnectedPrinters wst). status p = ''connected''"
    by (simp add: wifi_getConnectedPrinters_def)
  have "fst (wifi_print_each wenv (wifi_getConnectedPrinters wst) content wst) =
          map (wifi_print_alone wenv content wst) (wifi_getConnectedPrinters wst)"
    using d c by (rule wifi_print_each_results) simp
  with assms(1) show ?thesis
    by (auto simp: wifi_printToAllPrinters_def Let_def split: prod.splits)
qed

lemma wifi_printToAllPrinters_rejects:
  assumes "fst (wifi_printToAllPrinters wenv content wst) = Inl e"
  shows "wifi_getConnectedPrinters wst = []"
  using assms
  by (auto simp: wifi_printToAllPrinters_def Let_def split: if_splits prod.splits)

text \<open>Claim C3. With at least one eligible connected printer \<^verbatim>\<open>printToAllPrinters\<close>
  returns, one result per connected printer and in their order, and each result is the
  one that printer gets when it alone is printed to from the same state: its id, with
  success false and the error message when its print fails, whatever happens to the
  other printers. The call is rejected only when no printer is connected. This holds
  for the Enhanced Bluetooth manager and, the keys of the map being distinct, for the
  WiFi manager.\<close>

theorem printAll_fan_out:
  "(getConnectedPrinters st \<noteq> [] \<longrightarrow>
      (\<exists>rs st'. printToAllPrinters env data st = Some (Inr rs, st') \<and>
         length rs = length (getConnectedPrinters st) \<and>
         map Some rs = map (print_alone env data st) (getConnectedPrinters st))) \<and>
   (\<forall>e st'. printToAllPrinters env data st = Some (Inl e, st') \<longrightarrow> getConnectedPrinters st = []) \<and>
   (wifi_getConnectedPrinters wst \<noteq> [] \<and> distinct (map pid (w_printers wst)) \<longrightarrow>
      fst (wifi_printToAllPrinters wenv content wst) =
        Inr (map (wifi_print_alone wenv content wst) (wifi_getConnectedPrinters wst))) \<and>
   (\<forall>e. fst (wifi_printToAllPrinters wenv content wst) = Inl e \<longrightarrow> wifi_getConnectedPrinters wst = []) \<and>
   (\<forall>i ok msg. to_result i (Inr ok) = \<lparr>r_printerId = i, r_success = ok, r_error = None\<rparr> \<and>
      to_result i (Inl msg) = \<lparr>r_printerId = i, r_success = False, r_error = Some msg\<rparr>)"
proof (intro conjI allI impI)
  assume ne: "getConnectedPrinters st \<noteq> []"
  from printToAllPrinters_results[OF ne, of env data] obtain rs st' where
    rs: "printToAllPrinters env data st = Some (Inr rs, st')"
      "map Some rs = map (print_alone env data st) (getConnectedPrinters st)" by blast
  from rs(2) have "length rs = length (getConnectedPrinters st)"
    by (metis length_map)
  with rs show "\<exists>rs st'. printToAllPrinters env data st = Some (Inr rs, st') \<and>
         length rs = length (getConnectedPrinters st) \<and>
         map Some rs = map (print_alone env data st) (getConnectedPrinters st)" by blast
next
  fix e st' assume "printToAllPrinters env data st = Some (Inl e, st')"
  then show "getConnectedPrinters st = []" by (rule printToAllPrinters_rejects)
next
  assume "wifi_getConnectedPrinters wst \<noteq> [] \<and> distinct (map pid (w_printers wst))"
  then show "fst (wifi_printToAllPrinters wenv content wst) =
        Inr (map (wifi_print_alone wenv content wst) (wifi_getConnectedPrinters wst))"
    by (simp add: wifi_printToAllPrinters_results)
next
  fix e assume "fst (wifi_printToAllPrinters wenv content wst) = Inl e"
  then show "wifi_getConnectedPrinters wst = []" by (rule wifi_printToAllPrinters_rejects)
qed (simp_all add: to_result_def)

theorem printAll_fan_out_witness:
  "getConnectedPrinters ex_state2 = [ex_printer, ex_printer2] \<and>
   map_option fst (printToAllPrinters ex_env_fail [1, 2, 3] ex_state2) =
     Some (Inr [\<lparr>r_printerId = ''ble_1'', r_success = True, r_error = None\<rparr>,
                \<lparr>r_printerId = ''ble_2'', r_success = False, r_error = Some ''GATT operation failed''\<rparr>]) \<and>
   map_option fst (printToAllPrinters ex_env_fail [1, 2, 3] ex_state_tab) =
     Some (Inl ''No printers connected'') \<and>
   getConnectedPrinters ex_state_tab = [] \<and>
   wifi_getConnectedPrinters ex_wifi_state2 = [ex_wifi_printer2, ex_wifi_printer] \<and>
   distinct (map pid (w_printers ex_wifi_state2)) \<and>
   fst (wifi_printToAllPrinters ex_wifi_env_fail ''hello'' ex_wifi_state2) =
     Inr [\<lparr>r_printerId = ''wifi_2'', r_success = False, r_error = Some ''Connection refused''\<rparr>,
          \<lparr>r_printerId = ''wifi_1'', r_success = True, r_error = None\<rparr>]"
proof -
  have a: "getConnectedPrinters ex_state2 = [ex_printer, ex_printer2]"
    by (simp add: getConnectedPrinters_def ex_state2_def ex_state_def ex_printer2_def ex_printer_def)
  have b: "wifi_getConnectedPrinters ex_wifi_state2 = [ex_wifi_printer2, ex_wifi_printer]"
    by (simp add: wifi_getConnectedPrinters_def ex_wifi_state2_def ex_wifi_state_def
        ex_wifi_printer2_def ex_wifi_printer_def)
  have c: "distinct (map pid (w_printers ex_wifi_state2))"
    by (simp add: ex_wifi_state2_def ex_wifi_state_def ex_wifi_printer2_def ex_wifi_printer_def)
  have d: "getConnectedPrinters ex_state_tab = []"
    by (simp add: getConnectedPrinters_def ex_state_tab_def ex_state_def bt_loaded_def)
  have p1: "print_alone ex_env_fail [1, 2, 3] ex_state2 ex_printer =
              Some \<lparr>r_printerId = ''ble_1'', r_success = True, r_error = None\<rparr>"
    by (simp add: print_alone_def to_result_def printToPrinter_def sendPrintData_def
        sendChunks.simps find_characteristic_def maxChunkSize_def chunkDelay_def
        savePersistedConnections_def emit_def Let_def map_get_def ex_state2_def ex_state_def
        ex_printer2_def ex_printer_def ex_device_def ex_env_fail_def ex_env_def)
  have p2: "print_alone ex_env_fail [1, 2, 3] ex_state2 ex_printer2 =
              Some \<lparr>r_printerId = ''ble_2'', r_success = False, r_error = Some ''GATT operation failed''\<rparr>"
    by (simp add: print_alone_def to_result_def printToPrinter_def sendPrintData_def
        sendChunks.simps find_characteristic_def maxChunkSize_def chunkDelay_def
        savePersistedConnections_def emit_def Let_def map_get_def ex_state2_def ex_state_def
        ex_printer2_def ex_printer_def ex_device_def ex_env_fail_def ex_env_def)
  have w1: "wifi_print_alone ex_wifi_env_fail ''hello'' ex_wifi_state2 ex_wifi_printer2 =
              \<lparr>r_printerId = ''wifi_2'', r_success = False, r_error = Some ''Connection refused''\<rparr>"
    by (simp add: wifi_print_alone_def to_result_def wifi_printToPrinter_def wifi_print_error_def
        wemit_def Let_def map_get_def ex_wifi_state2_def ex_wifi_state_def ex_wifi_printer2_def
        ex_wifi_printer_def ex_wifi_env_fail_def ex_wifi_env_def)
  have w2: "wifi_print_alone ex_wifi_env_fail ''hello'' ex_wifi_state2 ex_wifi_printer =
              \<lparr>r_printerId = ''wifi_1'', r_success = True, r_error = None\<rparr>"
    by (simp add: wifi_print_alone_def to_result_def wifi_printToPrinter_def wifi_print_error_def
        wemit_def Let_def map_get_def ex_wifi_state2_def ex_wifi_state_def ex_wifi_printer2_def
        ex_wifi_printer_def ex_wifi_env_fail_def ex_wifi_env_def)
  have e: "map_option fst (printToAllPrinters ex_env_fail [1, 2, 3] ex_state_tab) =
     Some (Inl ''No printers connected'')"
    using d by (simp add: printToAllPrinters_def)
  show ?thesis
    using printAll_fan_out[of ex_state2 ex_env_fail "[1, 2, 3]" ex_wifi_state2 ex_wifi_env_fail "''hello''"]
      printAll_fan_out[of ex_state_tab ex_env_fail "[1, 2, 3]" ex_wifi_state2 ex_wifi_env_fail "''hello''"]
      a b c d e p1 p2 w1 w2
    by auto
qed

section \<open>Cross-tab messages with several records of one device\<close>

lemma upd_first_unique:
  assumes "distinct (map g xs)" and "\<And>x. g (f x) = g x"
    and "y \<in> set (upd_first (\<lambda>x. g x = D) f xs)" and "g y = D"
  shows "\<exists>x. y = f x"
  using assms(1,3)
proof (induction xs)
  case Nil
  then show ?case by simp
next
  case (Cons x xs)
  show ?case
  proof (cases "g x = D")
    case True
    with Cons.prems assms(4) show ?thesis by (auto simp: image_iff)
  next
    case False
    with Cons.prems assms(4) have "y \<in> set (upd_first (\<lambda>x. g x = D) f xs)" by auto
    with Cons show ?thesis by simp
  qed
qed

lemma broadcast_disconnect_unique:
  assumes "distinct (map deviceId (connectedPrinters st))"
    and "q \<in> set (connectedPrinters (handleBroadcastMessage ''disconnected'' m st))"
    and "deviceId q = m_deviceId m"
  shows "status q = ''disconnected'' \<and> device q = None \<and> server q = None"
proof (cases "find (\<lambda>p. deviceId p = m_deviceId m) (connectedPrinters st)")
  case None
  then have "handleBroadcastMessage ''disconnected'' m st = st"
    by (simp add: handleBroadcastMessage_def)
  with assms(2,3) None show ?thesis by (auto simp: find_None_iff_all)
next
  case (Some p)
  then have "connectedPrinters (handleBroadcastMessage ''disconnected'' m st) =
      upd_first (\<lambda>p. deviceId p = m_deviceId m)
        (\<lambda>p. p\<lparr>status := ''disconnected'', device := None, server := None\<rparr>) (connectedPrinters st)"
    by (simp add: handleBroadcastMessage_def savePersistedConnections_def emit_def Let_def)
  with assms(2) have "q \<in> set (upd_first (\<lambda>p. deviceId p = m_deviceId m)
        (\<lambda>p. p\<lparr>status := ''disconnected'', device := None, server := None\<rparr>) (connectedPrinters st))"
    by simp
  from upd_first_unique[OF assms(1) _ this assms(3)] obtain x where
    "q = x\<lparr>status := ''disconnected'', device := None, server := None\<rparr>" by auto
  then show ?thesis by simp
qed

text \<open>Claim C8. A message of type connected or reconnected is to change only the
  name and the timestamps of a disconnected local record, and a message of type
  disconnected is to force the local record of the printer to disconnected and to
  clear its device and server. The first part holds
  (\<open>handleBroadcastMessage_first_match\<close>), and so does the second while the registry
  holds one record for each device (\<open>broadcast_disconnect_unique\<close>). A tab that loaded
  a record of a device and was connected to the device again holds a stale record
  ahead of the live one. There a disconnected message for the device changes the stale
  record only: the record that holds the device and the server stays connected.\<close>

theorem stale_record_shadows_live:
  "map pid (connectedPrinters ex_state_stale) = [''ble_1'', ''ble_2''] \<and>
   map deviceId (connectedPrinters ex_state_stale) = [''AA:BB'', ''AA:BB''] \<and>
   map status (connectedPrinters ex_state_stale) = [''disconnected'', ''connected''] \<and>
   map device (connectedPrinters ex_state_stale) = [None, Some ex_device] \<and>
   m_deviceId ex_meta_drop = ''AA:BB'' \<and>
   map status (connectedPrinters (handleBroadcastMessage ''disconnected'' ex_meta_drop ex_state_stale)) =
     [''disconnected'', ''connected''] \<and>
   map device (connectedPrinters (handleBroadcastMessage ''disconnected'' ex_meta_drop ex_state_stale)) =
     [None, Some ex_device] \<and>
   map server (connectedPrinters (handleBroadcastMessage ''disconnected'' ex_meta_drop ex_state_stale)) =
     [None, Some ex_device]"
  by (simp add: handleBroadcastMessage_def ex_state_stale_def addPrinter_def
      loadPersistedConnections_def attemptReconnectFromPairedDevices_start_def
      savePersistedConnections_def setupDeviceEventListeners_def broadcastConnectionState_def
      emit_def Let_def map_set_def bt_loaded_def to_persisted_def ex_bt_fresh_def ex_state_def
      ex_printer_def ex_device_def ex_meta_drop_def)

end
